theory Spec2Isabelle
  imports
    Complex_Main
    "HOL-Library.AList"
    "HOL-Library.Multiset"
    "HOL-Library.List_Lexorder"
    "HOL-Library.Char_ord"
begin

section \<open>JSON values and records\<close>

text \<open>
  The handlers of \<^verbatim>\<open>src/mocks/handlers.ts\<close> take their request bodies as \<^verbatim>\<open>any\<close> and
  build records with object spreads, so a record is modelled as what it is at run time:
  a JSON object, an association list from field names to values. A field that is absent
  reads as \<^verbatim>\<open>undefined\<close>, here \<open>None\<close>.

  Two representation choices: numbers are integers (the order positions, counts and page
  numbers of this program), and a timestamp \<^verbatim>\<open>new Date().toISOString()\<close> is represented
  by its instant in epoch milliseconds, \<open>JNum t\<close>; ISO-8601 strings in UTC compare as
  their instants do.
\<close>

datatype jval =
    JNull
  | JBool bool
  | JNum int
  | JStr string
  | JArr "jval list"
  | JObj "(string \<times> jval) list"

type_synonym obj = "(string \<times> jval) list"

definition fld :: "obj \<Rightarrow> string \<Rightarrow> jval option" where
  \<comment> \<open>\<^verbatim>\<open>r.k\<close>\<close>
  "fld r k = map_of r k"

definition assign :: "string \<Rightarrow> jval \<Rightarrow> obj \<Rightarrow> obj" where
  \<comment> \<open>\<^verbatim>\<open>{ ...r, k: v }\<close>: an existing key keeps its place, a new key goes last\<close>
  "assign k v r = AList.update k v r"

definition obj_assign :: "obj \<Rightarrow> obj \<Rightarrow> obj" where
  \<comment> \<open>\<^verbatim>\<open>{ ...r, ...changes }\<close>, the merge Dexie's \<^verbatim>\<open>update\<close> performs on a stored record\<close>
  "obj_assign r changes = foldl (\<lambda>acc (k, v). assign k v acc) r changes"

definition props :: "(string \<times> jval option) list \<Rightarrow> obj" where
  \<comment> \<open>an object literal some of whose values may be \<^verbatim>\<open>undefined\<close>: those
      properties read back as absent and are dropped by \<^verbatim>\<open>JSON.stringify\<close>\<close>
  "props kvs = [(k, v). (k, Some v) \<leftarrow> kvs]"

fun truthy :: "jval option \<Rightarrow> bool" where
  "truthy None = False"
| "truthy (Some JNull) = False"
| "truthy (Some (JBool b)) = b"
| "truthy (Some (JNum n)) = (n \<noteq> 0)"
| "truthy (Some (JStr s)) = (s \<noteq> [])"
| "truthy (Some (JArr _)) = True"
| "truthy (Some (JObj _)) = True"

fun strict_neq :: "jval option \<Rightarrow> jval option \<Rightarrow> bool" where
  \<comment> \<open>\<^verbatim>\<open>a !== b\<close>: two arrays or objects read from different places are never identical\<close>
  "strict_neq (Some (JArr _)) _ = True"
| "strict_neq (Some (JObj _)) _ = True"
| "strict_neq a b = (a \<noteq> b)"


section \<open>The persistent store\<close>

text \<open>
  A Dexie table is the list of its records in primary-key order; the primary key of every
  table is the string field \<^verbatim>\<open>id\<close>.
\<close>

definition pk :: "obj \<Rightarrow> string" where
  "pk r = (case fld r ''id'' of Some (JStr s) \<Rightarrow> s | _ \<Rightarrow> [])"

definition has_key :: "string \<Rightarrow> obj \<Rightarrow> bool" where
  "has_key k r \<longleftrightarrow> fld r ''id'' = Some (JStr k)"

definition tbl_get :: "obj list \<Rightarrow> string \<Rightarrow> obj option" where
  \<comment> \<open>\<^verbatim>\<open>table.get(k)\<close>\<close>
  "tbl_get t k = find (has_key k) t"

definition tbl_add :: "obj list \<Rightarrow> obj \<Rightarrow> string + obj list" where
  \<comment> \<open>\<^verbatim>\<open>table.add(r)\<close> rejects a record without a key and a key already present\<close>
  "tbl_add t r =
     (case fld r ''id'' of
        Some (JStr k) \<Rightarrow>
          (if tbl_get t k \<noteq> None then Inl ''ConstraintError''
           else Inr (insort_key pk r t))
      | _ \<Rightarrow> Inl ''DataError'')"

definition tbl_update :: "obj list \<Rightarrow> string \<Rightarrow> obj \<Rightarrow> obj list" where
  \<comment> \<open>\<^verbatim>\<open>table.update(k, changes)\<close>; no record with that key: nothing happens\<close>
  "tbl_update t k changes = map (\<lambda>r. if has_key k r then obj_assign r changes else r) t"

record world =
  jobs :: "obj list"
  candidates :: "obj list"
  timeline :: "obj list"
  notes_tbl :: "obj list"
  assessments :: "obj list"
  assessmentResponses :: "obj list"
  clock :: real

definition tables :: "world \<Rightarrow> obj list \<times> obj list \<times> obj list \<times> obj list \<times> obj list \<times> obj list" where
  "tables w = (jobs w, candidates w, timeline w, notes_tbl w, assessments w, assessmentResponses w)"


section \<open>The transport simulator\<close>

text \<open>
  \<^verbatim>\<open>Math.random()\<close> is an input: every handler takes the draws it makes as arguments, the
  one for the latency first and, for a write, the one for the injected failure second.
  \<^verbatim>\<open>delay(ms)\<close> lets \<open>ms\<close> milliseconds pass on the clock, and \<^verbatim>\<open>new Date()\<close> reads the
  clock in whole milliseconds. \<^verbatim>\<open>crypto.randomUUID()\<close> is an input as well.
\<close>

definition simulateLatency :: "real \<Rightarrow> world \<Rightarrow> world" where
  "simulateLatency r w = w\<lparr>clock := clock w + (r * (1200 - 200) + 200)\<rparr>"

definition shouldSimulateError :: "real \<Rightarrow> bool" where
  "shouldSimulateError r \<longleftrightarrow> r < 0.075"

definition now_iso :: "world \<Rightarrow> jval" where
  "now_iso w = JNum \<lfloor>clock w\<rfloor>"

datatype result =
    Reply nat jval
  | Uncaught string

definition error_json :: "string \<Rightarrow> jval" where
  "error_json msg = JObj [(''error'', JStr msg)]"


section \<open>The order-index reindexer: PATCH /api/jobs/reorder\<close>

text \<open>
  The resolver written for the reorder request. It is registered after the resolver for
  \<^verbatim>\<open>PATCH /api/jobs/:id\<close> (see the section on requests).
\<close>

definition has_order :: "obj \<Rightarrow> bool" where
  "has_order j = (case fld j ''order'' of Some (JNum _) \<Rightarrow> True | _ \<Rightarrow> False)"

definition order_num :: "obj \<Rightarrow> int" where
  "order_num j = (case fld j ''order'' of Some (JNum n) \<Rightarrow> n | _ \<Rightarrow> 0)"

definition orderBy_order :: "obj list \<Rightarrow> obj list" where
  \<comment> \<open>\<^verbatim>\<open>db.jobs.orderBy('order').toArray()\<close>: the records that have an order, ascending,
      equal orders in primary-key order\<close>
  "orderBy_order t = sort_key order_num (filter has_order t)"

definition reorder_loop :: "obj list \<Rightarrow> int \<Rightarrow> int \<Rightarrow> (string \<times> obj) list" where
  \<comment> \<open>the \<^verbatim>\<open>db.jobs.update(j.id, { order: ... })\<close> calls the two loops issue, in order;
      \<open>j.order\<close> is read from the array fetched before the loops\<close>
  "reorder_loop js fromOrder toOrder =
     (if fromOrder < toOrder
      then [(pk j, [(''order'', JNum (order_num j - 1))]).
              j \<leftarrow> js, order_num j > fromOrder \<and> order_num j \<le> toOrder]
      else [(pk j, [(''order'', JNum (order_num j + 1))]).
              j \<leftarrow> js, order_num j \<ge> toOrder \<and> order_num j < fromOrder])"

definition reorder_calls :: "obj list \<Rightarrow> int \<Rightarrow> int \<Rightarrow> (string \<times> obj) list option" where
  \<comment> \<open>every store write of one reorder request that passed the failure injection;
      \<open>None\<close>: no job has \<open>fromOrder\<close>, the request is answered 404\<close>
  "reorder_calls t fromOrder toOrder =
     (let js = orderBy_order t in
      case find (\<lambda>j. order_num j = fromOrder) js of
        None \<Rightarrow> None
      | Some job \<Rightarrow> Some (reorder_loop js fromOrder toOrder @ [(pk job, [(''order'', JNum toOrder)])]))"

definition apply_calls :: "obj list \<Rightarrow> (string \<times> obj) list \<Rightarrow> obj list" where
  "apply_calls t calls = foldl (\<lambda>acc (k, changes). tbl_update acc k changes) t calls"

definition patch_jobs_reorder :: "real \<Rightarrow> real \<Rightarrow> int \<Rightarrow> int \<Rightarrow> world \<Rightarrow> result \<times> world" where
  "patch_jobs_reorder lat err fromOrder toOrder w =
     (let w1 = simulateLatency lat w in
      if shouldSimulateError err
      then (Reply 500 (error_json ''Failed to reorder jobs. Please try again.''), w1)
      else (case reorder_calls (jobs w1) fromOrder toOrder of
              None \<Rightarrow> (Reply 404 (error_json ''Job not found''), w1)
            | Some calls \<Rightarrow>
                (Reply 200 (JObj [(''success'', JBool True)]),
                 w1\<lparr>jobs := apply_calls (jobs w1) calls\<rparr>)))"


section \<open>Jobs endpoints\<close>

text \<open>
  String helpers of the tag filter, on ASCII text. A query parameter is \<open>None\<close> when the
  URL does not carry it; \<^verbatim>\<open>page\<close> and \<^verbatim>\<open>pageSize\<close>, when given, are decimal integers (the
  API client renders numbers) and are taken already parsed.
\<close>

definition is_space :: "char \<Rightarrow> bool" where
  "is_space c \<longleftrightarrow> c \<in> set [CHR '' '', CHR 0x09, CHR 0x0A, CHR 0x0B, CHR 0x0C, CHR 0x0D]"

definition trim :: "string \<Rightarrow> string" where
  "trim s = rev (dropWhile is_space (rev (dropWhile is_space s)))"

definition toLowerCase :: "string \<Rightarrow> string" where
  "toLowerCase s =
     map (\<lambda>c. if CHR ''A'' \<le> c \<and> c \<le> CHR ''Z'' then char_of (of_char c + (32::nat)) else c) s"

fun split_on :: "char \<Rightarrow> string \<Rightarrow> string list" where
  "split_on sep [] = [[]]"
| "split_on sep (c # cs) =
     (if c = sep then [] # split_on sep cs
      else (c # hd (split_on sep cs)) # tl (split_on sep cs))"

fun tags_some :: "string list \<Rightarrow> jval list \<Rightarrow> bool option" where
  \<comment> \<open>\<^verbatim>\<open>tags.some(tag => tagArray.includes(tag.toLowerCase()))\<close>; \<open>None\<close>: a TypeError\<close>
  "tags_some tagArray [] = Some False"
| "tags_some tagArray (JStr tag # ts) =
     (if toLowerCase tag \<in> set tagArray then Some True else tags_some tagArray ts)"
| "tags_some tagArray (_ # ts) = None"

definition job_has_tag :: "string list \<Rightarrow> obj \<Rightarrow> bool option" where
  "job_has_tag tagArray j =
     (case fld j ''tags'' of Some (JArr ts) \<Rightarrow> tags_some tagArray ts | _ \<Rightarrow> None)"

definition filter_tags :: "string list \<Rightarrow> obj list \<Rightarrow> obj list option" where
  "filter_tags tagArray js =
     (if list_all (\<lambda>j. job_has_tag tagArray j \<noteq> None) js
      then Some (filter (\<lambda>j. job_has_tag tagArray j = Some True) js)
      else None)"

definition js_slice :: "'a list \<Rightarrow> int \<Rightarrow> int \<Rightarrow> 'a list" where
  \<comment> \<open>\<^verbatim>\<open>xs.slice(s, e)\<close>: a negative index counts from the end\<close>
  "js_slice xs s e =
     (let n = int (length xs);
          s' = (if s < 0 then max (n + s) 0 else min s n);
          e' = (if e < 0 then max (n + e) 0 else min e n)
      in take (nat (e' - s')) (drop (nat s') xs))"

definition get_jobs ::
  "real \<Rightarrow> string option \<Rightarrow> string option \<Rightarrow> int option \<Rightarrow> int option \<Rightarrow> world \<Rightarrow> result \<times> world" where
  "get_jobs lat status tags page pageSize w =
     (let w1 = simulateLatency lat w;
          page' = (case page of None \<Rightarrow> 1 | Some p \<Rightarrow> p);
          pageSize' = (case pageSize of None \<Rightarrow> 20 | Some p \<Rightarrow> p);
          js0 = orderBy_order (jobs w1);
          js1 = (case status of
                   Some s \<Rightarrow> if s \<noteq> [] then filter (\<lambda>j. fld j ''status'' = Some (JStr s)) js0 else js0
                 | None \<Rightarrow> js0);
          js2 = (case tags of
                   Some tg \<Rightarrow>
                     if tg \<noteq> []
                     then filter_tags (map (\<lambda>t. toLowerCase (trim t)) (split_on CHR '','' tg)) js1
                     else Some js1
                 | None \<Rightarrow> Some js1)
      in case js2 of
           None \<Rightarrow> (Uncaught ''TypeError'', w1)
         | Some js \<Rightarrow>
             (let start = (page' - 1) * pageSize' in
              (Reply 200 (JObj [(''data'', JArr (map JObj (js_slice js start (start + pageSize')))),
                                (''total'', JNum (int (length js))),
                                (''page'', JNum page'),
                                (''pageSize'', JNum pageSize')]), w1)))"

definition get_job :: "real \<Rightarrow> string \<Rightarrow> world \<Rightarrow> result \<times> world" where
  "get_job lat id' w =
     (let w1 = simulateLatency lat w in
      case tbl_get (jobs w1) id' of
        None \<Rightarrow> (Reply 404 (error_json ''Job not found''), w1)
      | Some job \<Rightarrow> (Reply 200 (JObj [(''data'', JObj job)]), w1))"

definition post_jobs :: "real \<Rightarrow> real \<Rightarrow> string \<Rightarrow> obj \<Rightarrow> world \<Rightarrow> result \<times> world" where
  "post_jobs lat err uuid body w =
     (let w1 = simulateLatency lat w in
      if shouldSimulateError err
      then (Reply 500 (error_json ''Failed to create job. Please try again.''), w1)
      else (let job = assign ''updatedAt'' (now_iso w1)
                        (assign ''createdAt'' (now_iso w1) (assign ''id'' (JStr uuid) body)) in
            case tbl_add (jobs w1) job of
              Inl e \<Rightarrow> (Uncaught e, w1)
            | Inr t \<Rightarrow> (Reply 200 (JObj [(''data'', JObj job)]), w1\<lparr>jobs := t\<rparr>)))"

definition patch_job :: "real \<Rightarrow> real \<Rightarrow> string \<Rightarrow> obj \<Rightarrow> world \<Rightarrow> result \<times> world" where
  "patch_job lat err id' updates w =
     (let w1 = simulateLatency lat w in
      if shouldSimulateError err
      then (Reply 500 (error_json ''Failed to update job. Please try again.''), w1)
      else (let t = tbl_update (jobs w1) id' (assign ''updatedAt'' (now_iso w1) updates) in
            (Reply 200 (JObj (props [(''data'', map_option JObj (tbl_get t id'))])),
             w1\<lparr>jobs := t\<rparr>)))"





section \<open>Candidates endpoints\<close>

definition time_of :: "obj \<Rightarrow> string \<Rightarrow> int" where
  \<comment> \<open>the instant of a timestamp field; the records of this program always carry one\<close>
  "time_of r k = (case fld r k of Some (JNum t) \<Rightarrow> t | _ \<Rightarrow> 0)"

fun show_nat :: "nat \<Rightarrow> string" where
  "show_nat n =
     (if n < 10 then [''0123456789'' ! n]
      else show_nat (n div 10) @ [''0123456789'' ! (n mod 10)])"

definition show_int :: "int \<Rightarrow> string" where
  "show_int i = (if i < 0 then CHR ''-'' # show_nat (nat (- i)) else show_nat (nat i))"

fun join_commas :: "string list \<Rightarrow> string" where
  "join_commas [] = []"
| "join_commas [s] = s"
| "join_commas (s # t # ss) = s @ '','' @ join_commas (t # ss)"

fun js_str :: "jval \<Rightarrow> string" where
  "js_str JNull = ''null''"
| "js_str (JBool b) = (if b then ''true'' else ''false'')"
| "js_str (JNum n) = show_int n"
| "js_str (JStr s) = s"
| "js_str (JArr xs) = join_commas (map (\<lambda>x. if x = JNull then [] else js_str x) xs)"
| "js_str (JObj _) = ''[object Object]''"

definition template :: "jval option \<Rightarrow> string" where
  \<comment> \<open>a value inside a template literal\<close>
  "template v = (case v of None \<Rightarrow> ''undefined'' | Some x \<Rightarrow> js_str x)"

definition get_candidates_search ::
  "real \<Rightarrow> string option \<Rightarrow> int option \<Rightarrow> world \<Rightarrow> result \<times> world" where
  \<comment> \<open>\<open>page\<close> is parsed by the handler and not used\<close>
  "get_candidates_search lat stage page w =
     (let w1 = simulateLatency lat w;
          cs0 = candidates w1;
          cs1 = (case stage of
                   Some s \<Rightarrow> if s \<noteq> [] then filter (\<lambda>c. fld c ''stage'' = Some (JStr s)) cs0 else cs0
                 | None \<Rightarrow> cs0);
          cs2 = sort_key (\<lambda>c. - time_of c ''appliedAt'') cs1
      in (Reply 200 (JObj [(''data'', JArr (map JObj cs2)),
                           (''total'', JNum (int (length cs2)))]), w1))"

definition get_candidate :: "real \<Rightarrow> string \<Rightarrow> world \<Rightarrow> result \<times> world" where
  "get_candidate lat id' w =
     (let w1 = simulateLatency lat w in
      case tbl_get (candidates w1) id' of
        None \<Rightarrow> (Reply 404 (error_json ''Candidate not found''), w1)
      | Some candidate \<Rightarrow> (Reply 200 (JObj [(''data'', JObj candidate)]), w1))"

definition newest_first :: "string \<Rightarrow> obj list \<Rightarrow> obj list" where
  \<comment> \<open>\<^verbatim>\<open>.where('candidateId').equals(k).reverse().sortBy('createdAt')\<close>\<close>
  "newest_first k t =
     rev (sort_key (\<lambda>e. time_of e ''createdAt'') (filter (\<lambda>e. fld e ''candidateId'' = Some (JStr k)) t))"

definition get_candidate_timeline :: "real \<Rightarrow> string \<Rightarrow> world \<Rightarrow> result \<times> world" where
  "get_candidate_timeline lat id' w =
     (let w1 = simulateLatency lat w in
      (Reply 200 (JObj [(''data'', JArr (map JObj (newest_first id' (timeline w1))))]), w1))"

definition stage_change_event ::
  "string \<Rightarrow> string \<Rightarrow> jval option \<Rightarrow> jval option \<Rightarrow> jval \<Rightarrow> obj" where
  "stage_change_event uuid id' fromStage toStage now =
     props [(''id'', Some (JStr uuid)),
            (''candidateId'', Some (JStr id')),
            (''type'', Some (JStr ''stage_change'')),
            (''content'', Some (JStr (''Moved from '' @ template fromStage @ '' to '' @ template toStage))),
            (''fromStage'', fromStage),
            (''toStage'', toStage),
            (''createdAt'', Some now)]"

definition patch_candidate ::
  "real \<Rightarrow> real \<Rightarrow> string \<Rightarrow> string \<Rightarrow> obj \<Rightarrow> world \<Rightarrow> result \<times> world" where
  "patch_candidate lat err uuid id' updates w =
     (let w1 = simulateLatency lat w in
      if shouldSimulateError err
      then (Reply 500 (error_json ''Failed to update candidate. Please try again.''), w1)
      else (case tbl_get (candidates w1) id' of
              None \<Rightarrow> (Reply 404 (error_json ''Candidate not found''), w1)
            | Some candidate \<Rightarrow>
                (case (if truthy (fld updates ''stage'') \<and>
                          strict_neq (fld updates ''stage'') (fld candidate ''stage'')
                       then tbl_add (timeline w1)
                              (stage_change_event uuid id' (fld candidate ''stage'')
                                 (fld updates ''stage'') (now_iso w1))
                       else Inr (timeline w1)) of
                   Inl e \<Rightarrow> (Uncaught e, w1)
                 | Inr evs \<Rightarrow>
                     (let cs = tbl_update (candidates w1) id'
                                 (assign ''updatedAt'' (now_iso w1) updates) in
                      (Reply 200 (JObj (props [(''data'', map_option JObj (tbl_get cs id'))])),
                       w1\<lparr>timeline := evs, candidates := cs\<rparr>)))))"

definition application_event :: "string \<Rightarrow> jval option \<Rightarrow> jval \<Rightarrow> obj" where
  "application_event uuid candidateId now =
     props [(''id'', Some (JStr uuid)),
            (''candidateId'', candidateId),
            (''type'', Some (JStr ''stage_change'')),
            (''content'', Some (JStr ''Application submitted'')),
            (''toStage'', Some (JStr ''applied'')),
            (''createdAt'', Some now)]"

definition post_candidates ::
  "real \<Rightarrow> real \<Rightarrow> string \<Rightarrow> string \<Rightarrow> obj \<Rightarrow> world \<Rightarrow> result \<times> world" where
  "post_candidates lat err uuid1 uuid2 body w =
     (let w1 = simulateLatency lat w in
      if shouldSimulateError err
      then (Reply 500 (error_json ''Failed to create candidate. Please try again.''), w1)
      else (let candidate =
                  assign ''updatedAt'' (now_iso w1)
                    (assign ''appliedAt'' (now_iso w1)
                      (assign ''stage'' (JStr ''applied'') (assign ''id'' (JStr uuid1) body))) in
            case tbl_add (candidates w1) candidate of
              Inl e \<Rightarrow> (Uncaught e, w1)
            | Inr cs \<Rightarrow>
                (let w2 = w1\<lparr>candidates := cs\<rparr> in
                 case tbl_add (timeline w2)
                        (application_event uuid2 (fld candidate ''id'') (now_iso w2)) of
                   Inl e \<Rightarrow> (Uncaught e, w2)
                 | Inr evs \<Rightarrow> (Reply 200 (JObj [(''data'', JObj candidate)]), w2\<lparr>timeline := evs\<rparr>))))"

definition updateStage_body :: "string \<Rightarrow> obj" where
  \<comment> \<open>the body \<^verbatim>\<open>JSON.stringify({ stage })\<close> that \<^verbatim>\<open>candidatesApi.updateStage\<close> sends\<close>
  "updateStage_body stage = [(''stage'', JStr stage)]"


section \<open>Assessments and notes endpoints\<close>

definition get_assessments_job :: "real \<Rightarrow> string \<Rightarrow> world \<Rightarrow> result \<times> world" where
  "get_assessments_job lat jobId w =
     (let w1 = simulateLatency lat w in
      (Reply 200 (JObj [(''data'', JArr (map JObj
          (filter (\<lambda>a. fld a ''jobId'' = Some (JStr jobId)) (assessments w1))))]), w1))"

definition get_assessment :: "real \<Rightarrow> string \<Rightarrow> world \<Rightarrow> result \<times> world" where
  "get_assessment lat id' w =
     (let w1 = simulateLatency lat w in
      case tbl_get (assessments w1) id' of
        None \<Rightarrow> (Reply 404 (error_json ''Assessment not found''), w1)
      | Some assessment \<Rightarrow> (Reply 200 (JObj [(''data'', JObj assessment)]), w1))"

definition post_assessments :: "real \<Rightarrow> real \<Rightarrow> string \<Rightarrow> obj \<Rightarrow> world \<Rightarrow> result \<times> world" where
  "post_assessments lat err uuid body w =
     (let w1 = simulateLatency lat w in
      if shouldSimulateError err
      then (Reply 500 (error_json ''Failed to create assessment. Please try again.''), w1)
      else (let assessment = assign ''updatedAt'' (now_iso w1)
                               (assign ''createdAt'' (now_iso w1) (assign ''id'' (JStr uuid) body)) in
            case tbl_add (assessments w1) assessment of
              Inl e \<Rightarrow> (Uncaught e, w1)
            | Inr t \<Rightarrow> (Reply 200 (JObj [(''data'', JObj assessment)]), w1\<lparr>assessments := t\<rparr>)))"

definition put_assessment :: "real \<Rightarrow> real \<Rightarrow> string \<Rightarrow> obj \<Rightarrow> world \<Rightarrow> result \<times> world" where
  "put_assessment lat err id' updates w =
     (let w1 = simulateLatency lat w in
      if shouldSimulateError err
      then (Reply 500 (error_json ''Failed to update assessment. Please try again.''), w1)
      else (let t = tbl_update (assessments w1) id' (assign ''updatedAt'' (now_iso w1) updates) in
            (Reply 200 (JObj (props [(''data'', map_option JObj (tbl_get t id'))])),
             w1\<lparr>assessments := t\<rparr>)))"

definition post_assessment_submit ::
  "real \<Rightarrow> real \<Rightarrow> string \<Rightarrow> string \<Rightarrow> obj \<Rightarrow> world \<Rightarrow> result \<times> world" where
  \<comment> \<open>the path parameter \<open>jobId\<close> is not used by the handler\<close>
  "post_assessment_submit lat err uuid jobId body w =
     (let w1 = simulateLatency lat w in
      if shouldSimulateError err
      then (Reply 500 (error_json ''Failed to submit assessment. Please try again.''), w1)
      else (let response = props [(''id'', Some (JStr uuid)),
                                  (''assessmentId'', fld body ''assessmentId''),
                                  (''candidateId'', fld body ''candidateId''),
                                  (''answers'', fld body ''answers''),
                                  (''submittedAt'', Some (now_iso w1)),
                                  (''completedAt'', Some (now_iso w1))] in
            case tbl_add (assessmentResponses w1) response of
              Inl e \<Rightarrow> (Uncaught e, w1)
            | Inr t \<Rightarrow> (Reply 200 (JObj [(''data'', JObj response)]), w1\<lparr>assessmentResponses := t\<rparr>)))"

definition note_event :: "string \<Rightarrow> jval option \<Rightarrow> string \<Rightarrow> jval \<Rightarrow> obj" where
  "note_event uuid candidateId content now =
     props [(''id'', Some (JStr uuid)),
            (''candidateId'', candidateId),
            (''type'', Some (JStr ''note'')),
            (''content'', Some (JStr (take 100 content @ (if length content > 100 then ''...'' else [])))),
            (''createdAt'', Some now)]"

definition post_notes :: "real \<Rightarrow> real \<Rightarrow> string \<Rightarrow> string \<Rightarrow> obj \<Rightarrow> world \<Rightarrow> result \<times> world" where
  \<comment> \<open>a body whose \<open>content\<close> is not a string has no \<^verbatim>\<open>substring\<close>: the handler throws
      after the note is stored\<close>
  "post_notes lat err uuid1 uuid2 body w =
     (let w1 = simulateLatency lat w in
      if shouldSimulateError err
      then (Reply 500 (error_json ''Failed to create note. Please try again.''), w1)
      else (let note = assign ''createdAt'' (now_iso w1) (assign ''id'' (JStr uuid1) body) in
            case tbl_add (notes_tbl w1) note of
              Inl e \<Rightarrow> (Uncaught e, w1)
            | Inr ns \<Rightarrow>
                (let w2 = w1\<lparr>notes_tbl := ns\<rparr> in
                 case fld body ''content'' of
                   Some (JStr content) \<Rightarrow>
                     (case tbl_add (timeline w2)
                             (note_event uuid2 (fld body ''candidateId'') content (now_iso w2)) of
                        Inl e \<Rightarrow> (Uncaught e, w2)
                      | Inr evs \<Rightarrow> (Reply 200 (JObj [(''data'', JObj note)]), w2\<lparr>timeline := evs\<rparr>))
                 | _ \<Rightarrow> (Uncaught ''TypeError'', w2))))"

definition get_notes :: "real \<Rightarrow> string \<Rightarrow> world \<Rightarrow> result \<times> world" where
  "get_notes lat candidateId w =
     (let w1 = simulateLatency lat w in
      (Reply 200 (JObj [(''data'', JArr (map JObj (newest_first candidateId (notes_tbl w1))))]), w1))"


section \<open>The query cache and the optimistic mutations\<close>

text \<open>
  The pages keep server state in a TanStack Query client. The model holds what the pages
  read and write through \<^verbatim>\<open>getQueryData\<close> and \<^verbatim>\<open>setQueryData\<close>: the data cached under each
  query key. \<^verbatim>\<open>setQueryData\<close> leaves the cache as it is when the new value is \<^verbatim>\<open>undefined\<close>.
  \<^verbatim>\<open>cancelQueries\<close> and \<^verbatim>\<open>invalidateQueries\<close> drop or start fetches and mark entries stale;
  they do not change cached data, and staleness is outside this model.
\<close>

type_synonym qkey = "string list"
type_synonym cache = "qkey \<Rightarrow> jval option"

record toast =
  title :: string
  description :: string
  destructive :: bool

definition getQueryData :: "cache \<Rightarrow> qkey \<Rightarrow> jval option" where
  "getQueryData c k = c k"

definition setQueryData :: "cache \<Rightarrow> qkey \<Rightarrow> (jval option \<Rightarrow> jval option) \<Rightarrow> cache" where
  "setQueryData c k updater = (case updater (c k) of None \<Rightarrow> c | Some v \<Rightarrow> c(k \<mapsto> v))"

definition cancelQueries :: "cache \<Rightarrow> qkey \<Rightarrow> cache" where
  "cancelQueries c prefix = c"

definition invalidateQueries :: "cache \<Rightarrow> qkey \<Rightarrow> cache" where
  "invalidateQueries c prefix = c"

definition spread :: "jval option \<Rightarrow> obj" where
  \<comment> \<open>\<^verbatim>\<open>{ ...v }\<close> for a cached reply: nothing for \<^verbatim>\<open>undefined\<close>\<close>
  "spread v = (case v of Some (JObj r) \<Rightarrow> r | _ \<Rightarrow> [])"

definition jfld :: "jval option \<Rightarrow> string \<Rightarrow> jval option" where
  \<comment> \<open>\<^verbatim>\<open>v?.k\<close>\<close>
  "jfld v k = (case v of Some (JObj r) \<Rightarrow> fld r k | _ \<Rightarrow> None)"

definition items :: "jval option \<Rightarrow> jval list option" where
  \<comment> \<open>the array of a cached list reply, \<open>None\<close> when there is none\<close>
  "items v = (case v of Some (JArr xs) \<Rightarrow> Some xs | _ \<Rightarrow> None)"

definition mutation_retry :: nat where
  \<comment> \<open>no \<^verbatim>\<open>useMutation\<close> of the pages sets \<^verbatim>\<open>retry\<close>, and \<^verbatim>\<open>new QueryClient\<close> sets defaults
      for queries only\<close>
  "mutation_retry = 0"

fun run_attempts :: "nat \<Rightarrow> nat \<Rightarrow> (nat \<Rightarrow> string + jval) \<Rightarrow> (string + jval) \<times> nat" where
  \<comment> \<open>\<open>mutationFn n\<close> is how the \<open>n\<close>-th call of the mutation function settles; the result
      is the last outcome and the number of calls made\<close>
  "run_attempts retry n mutationFn =
     (case mutationFn n of
        Inr d \<Rightarrow> (Inr d, Suc n)
      | Inl e \<Rightarrow> (case retry of 0 \<Rightarrow> (Inl e, Suc n) | Suc r \<Rightarrow> run_attempts r (Suc n) mutationFn))"

declare run_attempts.simps [simp del]

definition useMutation ::
  "(cache \<Rightarrow> cache \<times> 'ctx) \<Rightarrow> ('ctx \<Rightarrow> cache \<Rightarrow> cache \<times> toast) \<Rightarrow> (cache \<Rightarrow> cache \<times> toast list) \<Rightarrow>
   (nat \<Rightarrow> string + jval) \<Rightarrow> cache \<Rightarrow> cache \<times> toast list \<times> nat" where
  \<comment> \<open>one \<^verbatim>\<open>mutate\<close> with nothing else touching the cache meanwhile: \<^verbatim>\<open>onMutate\<close>, the
      mutation function, then \<^verbatim>\<open>onError\<close> or \<^verbatim>\<open>onSuccess\<close>\<close>
  "useMutation onMutate onError onSuccess mutationFn c =
     (let (c1, ctx) = onMutate c;
          (settled, calls) = run_attempts mutation_retry 0 mutationFn
      in case settled of
           Inl e \<Rightarrow> (let (c2, t) = onError ctx c1 in (c2, [t], calls))
         | Inr d \<Rightarrow> (let (c2, ts) = onSuccess c1 in (c2, ts, calls)))"

definition fetchApi :: "result \<Rightarrow> string + jval" where
  \<comment> \<open>\<^verbatim>\<open>lib/api.ts\<close>: a reply that is not \<^verbatim>\<open>ok\<close> is thrown as an \<^verbatim>\<open>Error\<close>\<close>
  "fetchApi r =
     (case r of
        Reply st b \<Rightarrow>
          (if 200 \<le> st \<and> st \<le> 299 then Inr b
           else Inl (if truthy (jfld (Some b) ''message'')
                     then template (jfld (Some b) ''message'')
                     else ''HTTP '' @ show_nat st))
      | Uncaught e \<Rightarrow> Inl e)"

definition error_toast :: "string \<Rightarrow> toast" where
  "error_toast msg = \<lparr>title = ''Error'', description = msg, destructive = True\<rparr>"

subsection \<open>JobsPage: archiveMutation\<close>

definition archive_optimistic :: "string \<Rightarrow> jval option \<Rightarrow> jval option" where
  \<comment> \<open>\<^verbatim>\<open>old => ({ ...old, data: old?.data?.filter(job => job.id !== id) || [] })\<close>\<close>
  "archive_optimistic id' old =
     Some (JObj (assign ''data''
       (JArr (case items (jfld old ''data'') of
                Some js \<Rightarrow> filter (\<lambda>job. strict_neq (jfld (Some job) ''id'') (Some (JStr id'))) js
              | None \<Rightarrow> []))
       (spread old)))"

definition archive_onMutate :: "string \<Rightarrow> string \<Rightarrow> cache \<Rightarrow> cache \<times> jval option" where
  "archive_onMutate activeTab id' c =
     (let c1 = cancelQueries c [''jobs''];
          previousJobs = getQueryData c1 [''jobs'', activeTab]
      in (setQueryData c1 [''jobs'', activeTab] (archive_optimistic id'), previousJobs))"

definition archive_onError :: "string \<Rightarrow> jval option \<Rightarrow> cache \<Rightarrow> cache \<times> toast" where
  "archive_onError activeTab previousJobs c =
     (setQueryData c [''jobs'', activeTab] (\<lambda>_. previousJobs),
      error_toast ''Failed to update job status. Please try again.'')"

definition archive_onSuccess :: "string \<Rightarrow> cache \<Rightarrow> cache \<times> toast list" where
  "archive_onSuccess activeTab c =
     (invalidateQueries c [''jobs''],
      [\<lparr>title = ''Success'',
        description = ''Job '' @ (if activeTab = ''active'' then ''archived'' else ''restored'') @ '' successfully'',
        destructive = False\<rparr>])"

definition archiveMutation ::
  "string \<Rightarrow> string \<Rightarrow> (nat \<Rightarrow> string + jval) \<Rightarrow> cache \<Rightarrow> cache \<times> toast list \<times> nat" where
  "archiveMutation activeTab id' mutationFn c =
     useMutation (archive_onMutate activeTab id') (archive_onError activeTab)
       (archive_onSuccess activeTab) mutationFn c"


subsection \<open>CandidateDetailPage: stageMutation\<close>

definition stage_optimistic :: "string \<Rightarrow> jval option \<Rightarrow> jval option" where
  \<comment> \<open>\<^verbatim>\<open>old => ({ ...old, data: { ...old?.data, stage: newStage } })\<close>\<close>
  "stage_optimistic newStage old =
     Some (JObj (assign ''data''
       (JObj (assign ''stage'' (JStr newStage) (spread (jfld old ''data''))))
       (spread old)))"

definition stage_onMutate :: "string \<Rightarrow> string \<Rightarrow> cache \<Rightarrow> cache \<times> jval option" where
  "stage_onMutate id' newStage c =
     (let c1 = cancelQueries c [''candidate'', id'];
          previousData = getQueryData c1 [''candidate'', id']
      in (setQueryData c1 [''candidate'', id'] (stage_optimistic newStage), previousData))"

definition stage_onError :: "string \<Rightarrow> jval option \<Rightarrow> cache \<Rightarrow> cache \<times> toast" where
  "stage_onError id' previousData c =
     (setQueryData c [''candidate'', id'] (\<lambda>_. previousData),
      error_toast ''Failed to update candidate stage. Please try again.'')"

definition stage_onSuccess :: "string \<Rightarrow> cache \<Rightarrow> cache \<times> toast list" where
  "stage_onSuccess id' c =
     (invalidateQueries
        (invalidateQueries (invalidateQueries c [''candidate'', id']) [''candidate-timeline'', id'])
        [''candidates''],
      [\<lparr>title = ''Success'', description = ''Candidate stage updated successfully'',
        destructive = False\<rparr>])"

definition stageMutation ::
  "string \<Rightarrow> string \<Rightarrow> (nat \<Rightarrow> string + jval) \<Rightarrow> cache \<Rightarrow> cache \<times> toast list \<times> nat" where
  "stageMutation id' newStage mutationFn c =
     useMutation (stage_onMutate id' newStage) (stage_onError id') (stage_onSuccess id') mutationFn c"

subsection \<open>CandidateKanbanBoard: updateStageMutation\<close>

definition kanban_optimistic :: "string \<Rightarrow> string \<Rightarrow> jval \<Rightarrow> jval option \<Rightarrow> jval option" where
  \<comment> \<open>\<^verbatim>\<open>old?.data?.map(c => c.id === id ? { ...c, stage, updatedAt: now } : c) || []\<close>\<close>
  "kanban_optimistic id' stage now old =
     Some (JObj (assign ''data''
       (JArr (case items (jfld old ''data'') of
                Some cs \<Rightarrow>
                  map (\<lambda>c. if strict_neq (jfld (Some c) ''id'') (Some (JStr id')) then c
                           else JObj (assign ''updatedAt'' now
                                        (assign ''stage'' (JStr stage) (spread (Some c))))) cs
              | None \<Rightarrow> []))
       (spread old)))"

definition kanban_onMutate :: "string \<Rightarrow> string \<Rightarrow> jval \<Rightarrow> cache \<Rightarrow> cache \<times> jval option" where
  "kanban_onMutate id' stage now c =
     (let c1 = cancelQueries c [''candidates''];
          previousCandidates = getQueryData c1 [''candidates'', ''all'']
      in (setQueryData c1 [''candidates'', ''all''] (kanban_optimistic id' stage now),
          previousCandidates))"

definition kanban_onError :: "jval option \<Rightarrow> cache \<Rightarrow> cache \<times> toast" where
  "kanban_onError previousCandidates c =
     (setQueryData c [''candidates'', ''all''] (\<lambda>_. previousCandidates),
      error_toast ''Failed to update candidate stage. Please try again.'')"

definition kanban_onSuccess :: "cache \<Rightarrow> cache \<times> toast list" where
  "kanban_onSuccess c = (invalidateQueries c [''candidates''], [])"

definition updateStageMutation ::
  "string \<Rightarrow> string \<Rightarrow> jval \<Rightarrow> (nat \<Rightarrow> string + jval) \<Rightarrow> cache \<Rightarrow> cache \<times> toast list \<times> nat" where
  "updateStageMutation id' stage now mutationFn c =
     useMutation (kanban_onMutate id' stage now) kanban_onError kanban_onSuccess mutationFn c"

subsection \<open>JobsPage: drag and drop, reorderMutation\<close>

definition reorder_onError :: "unit \<Rightarrow> cache \<Rightarrow> cache \<times> toast" where
  "reorder_onError ctx c =
     (invalidateQueries c [''jobs''], error_toast ''Failed to reorder jobs. Please try again.'')"

definition reorder_onSuccess :: "cache \<Rightarrow> cache \<times> toast list" where
  "reorder_onSuccess c = (invalidateQueries c [''jobs''], [])"

definition reorderMutation ::
  "(nat \<Rightarrow> string + jval) \<Rightarrow> cache \<Rightarrow> cache \<times> toast list \<times> nat" where
  \<comment> \<open>no \<^verbatim>\<open>onMutate\<close>: nothing is applied and nothing is remembered when it starts\<close>
  "reorderMutation mutationFn c =
     useMutation (\<lambda>c. (c, ())) reorder_onError reorder_onSuccess mutationFn c"

definition findIndex :: "('a \<Rightarrow> bool) \<Rightarrow> 'a list \<Rightarrow> nat option" where
  \<comment> \<open>\<open>None\<close> where JavaScript answers \<open>-1\<close>\<close>
  "findIndex P xs = (if list_ex P xs then Some (length (takeWhile (\<lambda>x. \<not> P x) xs)) else None)"

definition arrayMove :: "'a list \<Rightarrow> nat \<Rightarrow> nat \<Rightarrow> 'a list" where
  \<comment> \<open>dnd-kit's \<^verbatim>\<open>arrayMove\<close> for two positions inside the array: the element is taken
      out and put back at the new position\<close>
  "arrayMove xs i j =
     (let rest = take i xs @ drop (Suc i) xs in take j rest @ xs ! i # drop j rest)"

definition handleDragEnd ::
  "string \<Rightarrow> jval list \<Rightarrow> string \<Rightarrow> string option \<Rightarrow>
   (jval option \<Rightarrow> jval option \<Rightarrow> nat \<Rightarrow> string + jval) \<Rightarrow> cache \<Rightarrow> (cache \<times> toast list \<times> nat) option" where
  \<comment> \<open>\<open>jobsApi\<close> stands for \<^verbatim>\<open>jobsApi.reorder\<close>. The sortable list hands over ids of the
      jobs on screen, which are those of \<open>filteredJobs\<close>; the result is \<open>None\<close> for an id
      that is not among them, a case left out of the model\<close>
  "handleDragEnd activeTab filteredJobs active over jobsApi c =
     (case over of
        None \<Rightarrow> Some (c, [], 0)
      | Some overId \<Rightarrow>
          if active = overId then Some (c, [], 0)
          else (case (findIndex (\<lambda>j. jfld (Some j) ''id'' = Some (JStr active)) filteredJobs,
                      findIndex (\<lambda>j. jfld (Some j) ''id'' = Some (JStr overId)) filteredJobs) of
                  (Some oldIndex, Some newIndex) \<Rightarrow>
                    (let reordered = arrayMove filteredJobs oldIndex newIndex;
                         c1 = setQueryData c [''jobs'', activeTab]
                                (\<lambda>old. Some (JObj (assign ''data'' (JArr reordered) (spread old))));
                         fromOrder = jfld (Some (filteredJobs ! oldIndex)) ''order'';
                         toOrder = jfld (Some (filteredJobs ! newIndex)) ''order''
                     in Some (reorderMutation (jobsApi fromOrder toOrder) c1))
                | _ \<Rightarrow> None))"


section \<open>Requests\<close>

text \<open>
  One request to the mock backend, named by the handler it is meant for, with the path
  parameters, the query parameters and the JSON body that handler reads. \<open>perform\<close> runs
  the handler on the draws of one request. A write is a request whose handler is
  registered for another method than GET.

  The mock service worker answers a request with the first registered handler whose
  method and path match. For sixteen of the seventeen requests that is the handler written
  for them. The reorder request is the exception: \<^verbatim>\<open>jobsApi.reorder\<close> sends
  \<^verbatim>\<open>PATCH /api/jobs/reorder\<close>, and \<^verbatim>\<open>handlers.ts\<close> registers the handler for
  \<^verbatim>\<open>PATCH /api/jobs/:id\<close> before the one for \<^verbatim>\<open>PATCH /api/jobs/reorder\<close>. The path
  matches \<^verbatim>\<open>/api/jobs/:id\<close> with \<open>id = reorder\<close>, so the request is served by \<open>patch_job\<close>
  with the reorder body as its updates, and \<open>patch_jobs_reorder\<close> is never reached.
\<close>

datatype request =
    GetJobs "string option" "string option" "int option" "int option"
  | GetJob string
  | PostJobs obj
  | PatchJob string obj
  | PatchJobsReorder int int
  | GetCandidatesSearch "string option" "int option"
  | GetCandidate string
  | GetCandidateTimeline string
  | PatchCandidate string obj
  | PostCandidates obj
  | GetAssessmentsJob string
  | GetAssessment string
  | PostAssessments obj
  | PutAssessment string obj
  | PostAssessmentSubmit string obj
  | PostNotes obj
  | GetNotes string

definition reorder_body :: "int \<Rightarrow> int \<Rightarrow> obj" where
  \<comment> \<open>the body \<^verbatim>\<open>JSON.stringify({ fromOrder, toOrder })\<close> that \<^verbatim>\<open>jobsApi.reorder\<close> sends\<close>
  "reorder_body fromOrder toOrder = [(''fromOrder'', JNum fromOrder), (''toOrder'', JNum toOrder)]"

record draws =
  latency :: real
  failure :: real
  uuid1 :: string
  uuid2 :: string

fun http_method :: "request \<Rightarrow> string" where
  "http_method (GetJobs _ _ _ _) = ''GET''"
| "http_method (GetJob _) = ''GET''"
| "http_method (PostJobs _) = ''POST''"
| "http_method (PatchJob _ _) = ''PATCH''"
| "http_method (PatchJobsReorder _ _) = ''PATCH''"
| "http_method (GetCandidatesSearch _ _) = ''GET''"
| "http_method (GetCandidate _) = ''GET''"
| "http_method (GetCandidateTimeline _) = ''GET''"
| "http_method (PatchCandidate _ _) = ''PATCH''"
| "http_method (PostCandidates _) = ''POST''"
| "http_method (GetAssessmentsJob _) = ''GET''"
| "http_method (GetAssessment _) = ''GET''"
| "http_method (PostAssessments _) = ''POST''"
| "http_method (PutAssessment _ _) = ''PUT''"
| "http_method (PostAssessmentSubmit _ _) = ''POST''"
| "http_method (PostNotes _) = ''POST''"
| "http_method (GetNotes _) = ''GET''"

definition is_write :: "request \<Rightarrow> bool" where
  "is_write req \<longleftrightarrow> http_method req \<noteq> ''GET''"

fun perform :: "draws \<Rightarrow> request \<Rightarrow> world \<Rightarrow> result \<times> world" where
  "perform d (GetJobs status tags page pageSize) w = get_jobs (latency d) status tags page pageSize w"
| "perform d (GetJob k) w = get_job (latency d) k w"
| "perform d (PostJobs body) w = post_jobs (latency d) (failure d) (uuid1 d) body w"
| "perform d (PatchJob k updates) w = patch_job (latency d) (failure d) k updates w"
| "perform d (PatchJobsReorder fromOrder toOrder) w =
     patch_job (latency d) (failure d) ''reorder'' (reorder_body fromOrder toOrder) w"
| "perform d (GetCandidatesSearch stage page) w = get_candidates_search (latency d) stage page w"
| "perform d (GetCandidate k) w = get_candidate (latency d) k w"
| "perform d (GetCandidateTimeline k) w = get_candidate_timeline (latency d) k w"
| "perform d (PatchCandidate k updates) w =
     patch_candidate (latency d) (failure d) (uuid1 d) k updates w"
| "perform d (PostCandidates body) w =
     post_candidates (latency d) (failure d) (uuid1 d) (uuid2 d) body w"
| "perform d (GetAssessmentsJob jobId) w = get_assessments_job (latency d) jobId w"
| "perform d (GetAssessment k) w = get_assessment (latency d) k w"
| "perform d (PostAssessments body) w = post_assessments (latency d) (failure d) (uuid1 d) body w"
| "perform d (PutAssessment k updates) w = put_assessment (latency d) (failure d) k updates w"
| "perform d (PostAssessmentSubmit jobId body) w =
     post_assessment_submit (latency d) (failure d) (uuid1 d) jobId body w"
| "perform d (PostNotes body) w = post_notes (latency d) (failure d) (uuid1 d) (uuid2 d) body w"
| "perform d (GetNotes candidateId) w = get_notes (latency d) candidateId w"


section \<open>Properties of the store, and the worlds used as examples\<close>

definition keyed :: "obj list \<Rightarrow> bool" where
  \<comment> \<open>what a Dexie table guarantees: every record has its key, no key occurs twice\<close>
  "keyed t \<longleftrightarrow> list_all (\<lambda>r. has_key (pk r) r) t \<and> distinct (map pk t)"

definition dense :: "obj list \<Rightarrow> bool" where
  \<comment> \<open>the order invariant: the order values are exactly \<open>0, \<dots>, N - 1\<close>, each once\<close>
  "dense t \<longleftrightarrow> list_all has_order t \<and> sort (map order_num t) = map int [0..<length t]"

definition spec_reindex :: "int \<Rightarrow> int \<Rightarrow> int \<Rightarrow> int" where
  \<comment> \<open>the reindexing rule in the words of the specification: the new order of the member
      whose order was \<open>x\<close>\<close>
  "spec_reindex fromOrder toOrder x =
     (if x = fromOrder then toOrder
      else if fromOrder < toOrder \<and> fromOrder < x \<and> x \<le> toOrder then x - 1
      else if fromOrder > toOrder \<and> toOrder \<le> x \<and> x < fromOrder then x + 1
      else x)"

definition step :: "obj \<Rightarrow> string \<times> obj \<Rightarrow> obj" where
  \<comment> \<open>what one \<^verbatim>\<open>update\<close> call does to one record\<close>
  "step r c = (if has_key (fst c) r then obj_assign r (snd c) else r)"

fun reorder_all :: "world \<Rightarrow> (real \<times> real \<times> int \<times> int) list \<Rightarrow> world option" where
  \<comment> \<open>reorder requests one after the other, each given as its two draws and its two
      positions; \<open>None\<close> as soon as one of them is not committed\<close>
  "reorder_all w [] = Some w"
| "reorder_all w ((lat, err, fromOrder, toOrder) # rs) =
     (case patch_jobs_reorder lat err fromOrder toOrder w of
        (Reply st b, w') \<Rightarrow> (if st = 200 then reorder_all w' rs else None)
      | (Uncaught e, w') \<Rightarrow> None)"

definition in_range :: "nat \<Rightarrow> real \<times> real \<times> int \<times> int \<Rightarrow> bool" where
  "in_range n r =
     (case r of (lat, err, fromOrder, toOrder) \<Rightarrow>
        0 \<le> fromOrder \<and> fromOrder \<le> int n - 1 \<and> 0 \<le> toOrder \<and> toOrder \<le> int n - 1)"








definition job_rec :: "string \<Rightarrow> int \<Rightarrow> obj" where
  "job_rec k n = [(''id'', JStr k), (''title'', JStr (''Job '' @ k)), (''order'', JNum n)]"

definition empty_world :: world where
  "empty_world = \<lparr>jobs = [], candidates = [], timeline = [], notes_tbl = [],
     assessments = [], assessmentResponses = [], clock = 0\<rparr>"

definition ten_jobs :: world where
  "ten_jobs = empty_world\<lparr>jobs :=
     [job_rec ''a'' 0, job_rec ''b'' 1, job_rec ''c'' 2, job_rec ''d'' 3, job_rec ''e'' 4,
      job_rec ''f'' 5, job_rec ''g'' 6, job_rec ''h'' 7, job_rec ''i'' 8, job_rec ''j'' 9]\<rparr>"

definition three_jobs :: world where
  "three_jobs = empty_world\<lparr>jobs := [job_rec ''a'' 0, job_rec ''b'' 1, job_rec ''c'' 2]\<rparr>"

definition ada :: obj where
  "ada = [(''id'', JStr ''c1''), (''name'', JStr ''Ada''), (''stage'', JStr ''applied''),
          (''appliedAt'', JNum 0)]"

definition one_candidate :: world where
  "one_candidate = three_jobs\<lparr>candidates := [ada]\<rparr>"

definition failing_draws :: draws where
  "failing_draws = \<lparr>latency = 0, failure = 0.05, uuid1 = ''u1'', uuid2 = ''u2''\<rparr>"

definition passing_draws :: draws where
  "passing_draws = \<lparr>latency = 0, failure = 0.5, uuid1 = ''u1'', uuid2 = ''u2''\<rparr>"

definition new_job_body :: obj where
  "new_job_body = [(''title'', JStr ''Engineer''), (''status'', JStr ''active''), (''order'', JNum 3)]"

definition new_job :: obj where
  "new_job = [(''title'', JStr ''Engineer''), (''status'', JStr ''active''), (''order'', JNum 3),
              (''id'', JStr ''u1''), (''createdAt'', JNum 200), (''updatedAt'', JNum 200)]"

definition eager_body :: obj where
  "eager_body = [(''name'', JStr ''Bo''), (''stage'', JStr ''screen'')]"

definition bo :: obj where
  "bo = [(''name'', JStr ''Bo''), (''stage'', JStr ''applied''), (''id'', JStr ''u1''),
         (''appliedAt'', JNum 200), (''updatedAt'', JNum 200)]"

definition bo_applied :: obj where
  "bo_applied = [(''id'', JStr ''u2''), (''candidateId'', JStr ''u1''), (''type'', JStr ''stage_change''),
                 (''content'', JStr ''Application submitted''), (''toStage'', JStr ''applied''),
                 (''createdAt'', JNum 200)]"


definition later_draws :: draws where
  "later_draws = \<lparr>latency = 0.5, failure = 0.9, uuid1 = ''u3'', uuid2 = ''u4''\<rparr>"

definition ada_screened :: obj where
  "ada_screened = [(''id'', JStr ''u1''), (''candidateId'', JStr ''c1''), (''type'', JStr ''stage_change''),
     (''content'', JStr ''Moved from applied to screen''), (''fromStage'', JStr ''applied''),
     (''toStage'', JStr ''screen''), (''createdAt'', JNum 200)]"

definition ada_tech :: obj where
  "ada_tech = [(''id'', JStr ''u3''), (''candidateId'', JStr ''c1''), (''type'', JStr ''stage_change''),
     (''content'', JStr ''Moved from screen to tech''), (''fromStage'', JStr ''screen''),
     (''toStage'', JStr ''tech''), (''createdAt'', JNum 900)]"

definition after_screen :: world where
  "after_screen = one_candidate\<lparr>
     candidates := [[(''id'', JStr ''c1''), (''name'', JStr ''Ada''), (''stage'', JStr ''screen''),
                     (''appliedAt'', JNum 0), (''updatedAt'', JNum 200)]],
     timeline := [ada_screened], clock := 200\<rparr>"

definition after_tech :: world where
  "after_tech = one_candidate\<lparr>
     candidates := [[(''id'', JStr ''c1''), (''name'', JStr ''Ada''), (''stage'', JStr ''tech''),
                     (''appliedAt'', JNum 0), (''updatedAt'', JNum 900)]],
     timeline := [ada_screened, ada_tech], clock := 900\<rparr>"


definition page_abc :: jval where
  "page_abc = JObj [(''data'', JArr [JObj (job_rec ''a'' 0), JObj (job_rec ''b'' 1), JObj (job_rec ''c'' 2)]),
                    (''total'', JNum 3), (''page'', JNum 1), (''pageSize'', JNum 20)]"

definition page_bca :: jval where
  "page_bca = JObj [(''data'', JArr [JObj (job_rec ''b'' 1), JObj (job_rec ''c'' 2), JObj (job_rec ''a'' 0)]),
                    (''total'', JNum 3), (''page'', JNum 1), (''pageSize'', JNum 20)]"

definition jobs_cache :: cache where
  "jobs_cache = Map.empty([''jobs'', ''active''] \<mapsto> page_abc,
     [''candidate'', ''c1''] \<mapsto> JObj [(''data'', JObj ada)],
     [''candidates'', ''all''] \<mapsto> JObj [(''data'', JArr [JObj ada]), (''total'', JNum 1)])"

definition page_ac :: jval where
  "page_ac = JObj [(''data'', JArr [JObj (job_rec ''a'' 0), JObj (job_rec ''c'' 2)]),
                   (''total'', JNum 3), (''page'', JNum 1), (''pageSize'', JNum 20)]"

definition failing_update :: "nat \<Rightarrow> string + jval" where
  "failing_update n = fetchApi (Reply 500 (error_json ''Failed to update job. Please try again.''))"

definition failing_api :: "jval option \<Rightarrow> jval option \<Rightarrow> nat \<Rightarrow> string + jval" where
  "failing_api fromOrder toOrder n = fetchApi (Reply 500 (error_json ''Failed to reorder jobs. Please try again.''))"

section \<open>The reindexer: what a committed reorder does\<close>

lemma step_pair: "step r (k, ch) = (if has_key k r then obj_assign r ch else r)"
  by (simp add: step_def)

lemma fld_assign: "fld (assign k v r) k' = (if k' = k then Some v else fld r k')"
  by (simp add: fld_def assign_def update_conv')

lemma obj_assign_single: "obj_assign r [(k, v)] = assign k v r"
  by (simp add: obj_assign_def)

lemma has_key_assign: "k \<noteq> ''id'' \<Longrightarrow> has_key i (assign k v r) = has_key i r"
  by (simp add: has_key_def fld_assign)

lemma has_key_unique: "has_key k r \<Longrightarrow> has_key k' r \<longleftrightarrow> k' = k"
  by (auto simp: has_key_def)

lemma has_key_pk: "has_key k r \<Longrightarrow> pk r = k"
  by (simp add: has_key_def pk_def)

lemma apply_calls_map: "apply_calls t calls = map (\<lambda>r. foldl step r calls) t"
proof (induction calls arbitrary: t)
  case Nil
  then show ?case by (simp add: apply_calls_def)
next
  case (Cons c cs)
  have "apply_calls t (c # cs) = apply_calls (tbl_update t (fst c) (snd c)) cs"
    by (simp add: apply_calls_def case_prod_beta)
  also have "\<dots> = map (\<lambda>r. foldl step r cs) (tbl_update t (fst c) (snd c))"
    by (rule Cons.IH)
  also have "\<dots> = map (\<lambda>r. foldl step r (c # cs)) t"
    by (simp add: tbl_update_def step_def)
  finally show ?case .
qed

lemma loop_miss:
  "has_key k x \<Longrightarrow> k \<notin> pk ` set js \<Longrightarrow>
   foldl step x [(pk j, [(''order'', JNum (h j))]). j \<leftarrow> js, P j] = x"
  by (induction js) (auto simp: step_pair has_key_unique)

lemma loop_hit:
  "distinct (map pk js) \<Longrightarrow> r \<in> set js \<Longrightarrow> has_key (pk r) r \<Longrightarrow>
   foldl step r [(pk j, [(''order'', JNum (h j))]). j \<leftarrow> js, P j] =
     (if P r then assign ''order'' (JNum (h r)) r else r)"
proof (induction js)
  case Nil
  then show ?case by simp
next
  case (Cons j js)
  show ?case
  proof (cases "r = j")
    case True
    have miss: "pk r \<notin> pk ` set js" using Cons.prems(1) True by auto
    have k': "has_key (pk r) (assign ''order'' (JNum (h r)) r)"
      using Cons.prems(3) by (simp add: has_key_assign)
    show ?thesis
      using True Cons.prems(3) loop_miss[where h=h and P=P, OF k' miss] loop_miss[where h=h and P=P, OF Cons.prems(3) miss]
      by (simp add: step_pair obj_assign_single)
  next
    case False
    then have in_js: "r \<in> set js" using Cons.prems(2) by simp
    have "pk j \<noteq> pk r" using Cons.prems(1) in_js by auto
    then have "\<not> has_key (pk j) r" using Cons.prems(3) by (simp add: has_key_unique)
    then show ?thesis
      using Cons.IH[OF _ in_js Cons.prems(3)] Cons.prems(1) by (simp add: step_pair)
  qed
qed

lemma dense_orders_distinct: "dense t \<Longrightarrow> distinct (map order_num t)"
proof -
  assume "dense t"
  then have "sort (map order_num t) = map int [0..<length t]" by (simp add: dense_def)
  moreover have "distinct (map int [0..<length t])" by (simp add: distinct_map)
  ultimately have "distinct (sort (map order_num t))" by simp
  then show ?thesis by simp
qed

lemma dense_orderBy: "dense t \<Longrightarrow> mset (orderBy_order t) = mset t"
proof -
  assume "dense t"
  then have "\<forall>r\<in>set t. has_order r" by (simp add: dense_def list_all_iff)
  then have "filter has_order t = t" by simp
  then show ?thesis by (simp add: orderBy_order_def)
qed

lemma set_order_same: "has_order r \<Longrightarrow> assign ''order'' (JNum (order_num r)) r = r"
  unfolding assign_def
  by (rule update_triv) (auto simp: has_order_def order_num_def fld_def split: option.splits jval.splits)

lemma reorder_calls_map:
  assumes k: "keyed t" and d: "dense t"
    and c: "reorder_calls t fromOrder toOrder = Some calls"
  shows "apply_calls t calls =
         map (\<lambda>j. assign ''order'' (JNum (spec_reindex fromOrder toOrder (order_num j))) j) t"
proof -
  define js where "js = orderBy_order t"
  have ms: "mset js = mset t" using d by (simp add: js_def dense_orderBy)
  then have set_js: "set js = set t" by (rule mset_eq_setD)
  have "mset (map pk js) = mset (map pk t)" using ms by simp
  moreover have "distinct (map pk t)" using k by (simp add: keyed_def)
  ultimately have dist_js: "distinct (map pk js)" by (metis mset_eq_imp_distinct_iff)
  have keys: "\<And>r. r \<in> set t \<Longrightarrow> has_key (pk r) r"
    using k by (simp add: keyed_def list_all_iff)
  have ords: "\<And>r. r \<in> set t \<Longrightarrow> has_order r"
    using d by (simp add: dense_def list_all_iff)
  obtain job where f: "find (\<lambda>j. order_num j = fromOrder) js = Some job"
    and calls: "calls = reorder_loop js fromOrder toOrder @ [(pk job, [(''order'', JNum toOrder)])]"
    using c by (auto simp: reorder_calls_def js_def[symmetric] Let_def split: option.splits)
  have job_in: "job \<in> set t" and job_ord: "order_num job = fromOrder"
    using f set_js by (auto simp: find_Some_iff)
  have inj: "\<And>r. r \<in> set t \<Longrightarrow> order_num r = fromOrder \<Longrightarrow> r = job"
    using dense_orders_distinct[OF d] job_in job_ord
    by (auto simp: distinct_map dest: inj_onD)
  have each: "foldl step r calls =
              assign ''order'' (JNum (spec_reindex fromOrder toOrder (order_num r))) r"
    if r: "r \<in> set t" for r
  proof -
    have rj: "r \<in> set js" using r set_js by simp
    have kr: "has_key (pk r) r" by (rule keys[OF r])
    show ?thesis
    proof (cases "r = job")
      case True
      have "foldl step r (reorder_loop js fromOrder toOrder) = r"
        using loop_hit[OF dist_js rj kr] True job_ord by (simp add: reorder_loop_def)
      then show ?thesis
        using True job_ord kr
        by (simp add: calls step_pair obj_assign_single spec_reindex_def)
    next
      case False
      then have ne: "order_num r \<noteq> fromOrder" using inj[OF r] by blast
      have "inj_on pk (set t)" using k by (simp add: keyed_def distinct_map)
      then have "pk r \<noteq> pk job"
        using False r job_in by (auto dest: inj_onD)
      then have nk: "\<And>v. has_key (pk r) v \<Longrightarrow> \<not> has_key (pk job) v"
        by (simp add: has_key_unique)
      have lp: "foldl step r (reorder_loop js fromOrder toOrder) =
            assign ''order'' (JNum (spec_reindex fromOrder toOrder (order_num r))) r"
        using loop_hit[OF dist_js rj kr] ne set_order_same[OF ords[OF r]]
        by (auto simp: reorder_loop_def spec_reindex_def)
      have "has_key (pk r) (assign ''order'' (JNum (spec_reindex fromOrder toOrder (order_num r))) r)"
        using kr by (simp add: has_key_assign)
      then show ?thesis
        using nk by (simp add: calls lp step_pair)
    qed
  qed
  show ?thesis
    unfolding apply_calls_map by (rule map_cong[OF refl]) (rule each)
qed

lemma order_num_assign: "order_num (assign ''order'' (JNum x) j) = x"
  by (simp add: order_num_def fld_assign)

lemma has_order_assign: "has_order (assign ''order'' (JNum x) j)"
  by (simp add: has_order_def fld_assign)

lemma pk_assign_order: "pk (assign ''order'' v j) = pk j"
  by (simp add: pk_def fld_assign)

lemma spec_reindex_inj:
  "inj_on (spec_reindex f t) {0..<n}"
  by (rule inj_onI) (auto simp: spec_reindex_def split: if_splits)

lemma spec_reindex_into:
  "0 \<le> f \<Longrightarrow> f < n \<Longrightarrow> 0 \<le> t \<Longrightarrow> t < n \<Longrightarrow> spec_reindex f t ` {0..<n} \<subseteq> {0..<n}"
  by (auto simp: spec_reindex_def)

lemma spec_reindex_perm:
  "0 \<le> f \<Longrightarrow> f < n \<Longrightarrow> 0 \<le> t \<Longrightarrow> t < n \<Longrightarrow> spec_reindex f t ` {0..<n} = {0..<n}"
  by (rule endo_inj_surj) (simp_all add: spec_reindex_into spec_reindex_inj)

lemma dense_iff:
  "dense t \<longleftrightarrow> list_all has_order t \<and> distinct (map order_num t) \<and>
     set (map order_num t) = {0..<int (length t)}"
proof -
  have up: "set (map int [0..<length t]) = {0..<int (length t)}"
    by (auto simp: image_iff) (metis nat_less_iff nat_0_le atLeast0LessThan lessThan_iff)
  have "sort (map order_num t) = map int [0..<length t] \<longleftrightarrow>
        distinct (map order_num t) \<and> set (map order_num t) = {0..<int (length t)}"
    (is "?l \<longleftrightarrow> ?r")
  proof
    assume l: ?l
    have "distinct (sort (map order_num t))" unfolding l by (simp add: distinct_map)
    moreover have "set (sort (map order_num t)) = {0..<int (length t)}" unfolding l by (rule up)
    ultimately show ?r by simp
  next
    assume r: ?r
    have "sorted (map int [0..<length t])" by (simp add: sorted_map sorted_wrt_iff_nth_less)
    moreover have "distinct (map int [0..<length t])" by (simp add: distinct_map)
    moreover have "set (sort (map order_num t)) = set (map int [0..<length t])"
      using r up by simp
    moreover have "distinct (sort (map order_num t))" using r by simp
    ultimately show ?l
      by (metis sorted_distinct_set_unique sorted_sort)
  qed
  then show ?thesis by (simp add: dense_def)
qed

lemma dense_reindex:
  assumes d: "dense t" and r: "0 \<le> f" "f < int (length t)" "0 \<le> g" "g < int (length t)"
  shows "dense (map (\<lambda>j. assign ''order'' (JNum (spec_reindex f g (order_num j))) j) t)"
proof -
  let ?t' = "map (\<lambda>j. assign ''order'' (JNum (spec_reindex f g (order_num j))) j) t"
  have os: "map order_num ?t' = map (spec_reindex f g) (map order_num t)"
    by (simp add: order_num_assign comp_def)
  have dist: "distinct (map order_num t)" and st: "set (map order_num t) = {0..<int (length t)}"
    using d by (simp_all add: dense_iff)
  have "inj_on (spec_reindex f g) (set (map order_num t))"
    unfolding st by (rule spec_reindex_inj)
  with dist have "distinct (map (spec_reindex f g) (map order_num t))"
    by (subst distinct_map) blast
  moreover have "set (map (spec_reindex f g) (map order_num t)) = {0..<int (length t)}"
    using st spec_reindex_perm[OF r] by (metis set_map)
  moreover have "list_all has_order ?t'" by (simp add: list_all_iff has_order_assign)
  ultimately show ?thesis unfolding dense_iff os by simp
qed

lemma keyed_reindex:
  "keyed t \<Longrightarrow> keyed (map (\<lambda>j. assign ''order'' (JNum (h j)) j) t)"
  by (simp add: keyed_def list_all_iff pk_assign_order has_key_assign comp_def)

lemma jobs_simulateLatency: "jobs (simulateLatency lat w) = jobs w"
  by (simp add: simulateLatency_def)

lemma tables_simulateLatency: "tables (simulateLatency lat w) = tables w"
  by (simp add: simulateLatency_def tables_def)

lemma reorder_committed:
  assumes "patch_jobs_reorder lat err fromOrder toOrder w = (Reply 200 b, w')"
  shows "\<exists>calls. reorder_calls (jobs w) fromOrder toOrder = Some calls \<and>
           jobs w' = apply_calls (jobs w) calls"
  using assms
  by (auto simp: patch_jobs_reorder_def Let_def jobs_simulateLatency split: if_splits option.splits)

text \<open>
  Run on its own, the reorder resolver does what the rule of the specification says: on a
  collection densely ordered \<open>0, \<dots>, N - 1\<close> the moved member gets \<open>toOrder\<close>, the members
  between the two positions shift by one towards the position left, every member still
  has an order, and no other field changes.
\<close>

lemma shadowed_reorder_shifts_exactly:
  assumes "keyed (jobs w)" and "dense (jobs w)"
    and "patch_jobs_reorder lat err fromOrder toOrder w = (Reply 200 b, w')"
  shows "length (jobs w') = length (jobs w) \<and>
         (\<forall>i < length (jobs w).
            has_order (jobs w' ! i) \<and>
            order_num (jobs w' ! i) = spec_reindex fromOrder toOrder (order_num (jobs w ! i)) \<and>
            (\<forall>k. k \<noteq> ''order'' \<longrightarrow> fld (jobs w' ! i) k = fld (jobs w ! i) k))"
proof -
  obtain calls where c: "reorder_calls (jobs w) fromOrder toOrder = Some calls"
    and j: "jobs w' = apply_calls (jobs w) calls"
    using reorder_committed[OF assms(3)] by blast
  show ?thesis
    unfolding j reorder_calls_map[OF assms(1,2) c]
    by (simp add: order_num_assign has_order_assign fld_assign)
qed

lemmas eval_defs = patch_jobs_reorder_def shouldSimulateError_def simulateLatency_def reorder_calls_def
     orderBy_order_def reorder_loop_def apply_calls_def tbl_update_def obj_assign_def assign_def
     has_key_def has_order_def order_num_def pk_def fld_def error_json_def Let_def
     keyed_def dense_def

lemmas world_defs = three_jobs_def empty_world_def job_rec_def

lemmas store_defs = tbl_add_def tbl_get_def tbl_update_def has_key_def pk_def fld_def assign_def
  obj_assign_def props_def now_iso_def simulateLatency_def shouldSimulateError_def error_json_def

lemma shadowed_reorder_ten_items:
  "keyed (jobs ten_jobs) \<and> dense (jobs ten_jobs) \<and>
   fst (patch_jobs_reorder 0 0.5 5 2 ten_jobs) = Reply 200 (JObj [(''success'', JBool True)]) \<and>
   map order_num (jobs (snd (patch_jobs_reorder 0 0.5 5 2 ten_jobs))) = [0, 1, 3, 4, 5, 2, 6, 7, 8, 9]"
  by (simp add: eval_defs ten_jobs_def world_defs upt_rec)


section \<open>The reindexer: sequences of reorders\<close>

lemma reorder_keeps_invariants:
  assumes k: "keyed (jobs w)" and d: "dense (jobs w)"
    and r: "0 \<le> fromOrder" "fromOrder \<le> int (length (jobs w)) - 1"
           "0 \<le> toOrder" "toOrder \<le> int (length (jobs w)) - 1"
    and c: "patch_jobs_reorder lat err fromOrder toOrder w = (Reply 200 b, w')"
  shows "keyed (jobs w') \<and> dense (jobs w') \<and> length (jobs w') = length (jobs w)"
proof -
  obtain calls where cs: "reorder_calls (jobs w) fromOrder toOrder = Some calls"
    and j: "jobs w' = apply_calls (jobs w) calls"
    using reorder_committed[OF c] by blast
  have r': "fromOrder < int (length (jobs w))" "toOrder < int (length (jobs w))"
    using r by simp_all
  show ?thesis
    unfolding j reorder_calls_map[OF k d cs]
    using keyed_reindex[OF k] dense_reindex[OF d r(1) r'(1) r(3) r'(2)] by simp
qed

lemma reorder_all_invariants:
  "keyed (jobs w) \<Longrightarrow> dense (jobs w) \<Longrightarrow> list_all (in_range (length (jobs w))) rs \<Longrightarrow>
   reorder_all w rs = Some w' \<Longrightarrow>
   keyed (jobs w') \<and> dense (jobs w') \<and> length (jobs w') = length (jobs w)"
proof (induction rs arbitrary: w)
  case Nil
  then show ?case by simp
next
  case (Cons r rs)
  obtain lat err fromOrder toOrder where r: "r = (lat, err, fromOrder, toOrder)"
    by (cases r) auto
  obtain b w1 where c: "patch_jobs_reorder lat err fromOrder toOrder w = (Reply 200 b, w1)"
    and rest: "reorder_all w1 rs = Some w'"
    using Cons.prems(4) unfolding r
    by (auto split: prod.splits result.splits if_splits)
  have rng: "0 \<le> fromOrder" "fromOrder \<le> int (length (jobs w)) - 1"
            "0 \<le> toOrder" "toOrder \<le> int (length (jobs w)) - 1"
    using Cons.prems(3) unfolding r by (simp_all add: in_range_def)
  have inv: "keyed (jobs w1) \<and> dense (jobs w1) \<and> length (jobs w1) = length (jobs w)"
    by (rule reorder_keeps_invariants[OF Cons.prems(1,2) rng c])
  then have "list_all (in_range (length (jobs w1))) rs" using Cons.prems(3) by simp
  with inv rest Cons.IH[of w1] show ?case by simp
qed

text \<open>
  Claim C1. Start from a jobs table whose order values are exactly \<open>0, \<dots>, N - 1\<close>. After
  any sequence of committed reorder requests, each with both positions inside
  \<open>[0, N - 1]\<close>, the table still has \<open>N\<close> members and their order values are again exactly
  \<open>0, \<dots>, N - 1\<close>, without duplicates and without gaps.
\<close>

theorem reorders_keep_order_dense:
  assumes "keyed (jobs w)" and "dense (jobs w)"
    and "list_all (in_range (length (jobs w))) rs"
    and "reorder_all w rs = Some w'"
  shows "length (jobs w') = length (jobs w) \<and>
         distinct (map order_num (jobs w')) \<and>
         set (map order_num (jobs w')) = {0..<int (length (jobs w))}"
  using reorder_all_invariants[OF assms] by (simp add: dense_iff)

theorem reorders_keep_order_dense_witness:
  "keyed (jobs three_jobs) \<and> dense (jobs three_jobs) \<and>
   list_all (in_range (length (jobs three_jobs))) [(0, 0.5, 0, 2), (0.25, 0.9, 1, 0), (0, 0.5, 2, 2)] \<and>
   map_option (map order_num \<circ> jobs)
     (reorder_all three_jobs [(0, 0.5, 0, 2), (0.25, 0.9, 1, 0), (0, 0.5, 2, 2)]) = Some [2, 1, 0] \<and>
   map_option (length \<circ> jobs)
     (reorder_all three_jobs [(0, 0.5, 0, 2), (0.25, 0.9, 1, 0), (0, 0.5, 2, 2)]) = Some 3"
proof -
  let ?rs = "[(0, 0.5, 0, 2), (0.25, 0.9, 1, 0), (0, 0.5, 2, 2)] :: (real \<times> real \<times> int \<times> int) list"
  have k: "keyed (jobs three_jobs)" by (simp add: eval_defs world_defs)
  have d: "dense (jobs three_jobs)" by (simp add: eval_defs world_defs upt_rec)
  have r: "list_all (in_range (length (jobs three_jobs))) ?rs"
    by (simp add: in_range_def world_defs)
  obtain w' where run: "reorder_all three_jobs ?rs = Some w'"
    and o: "map order_num (jobs w') = [2, 1, 0]"
    by (simp add: eval_defs world_defs)
  have "length (jobs w') = length (jobs three_jobs)"
    using reorders_keep_order_dense[OF k d r run] by (rule conjunct1)
  then have l: "length (jobs w') = 3" by (simp add: world_defs)
  show ?thesis
    by (intro conjI) (simp_all only: k d r run o l option.map comp_apply)
qed

lemma orderBy_subset: "j \<in> set (orderBy_order t) \<Longrightarrow> j \<in> set t \<and> has_order j"
  by (simp add: orderBy_order_def)

lemma has_order_fld: "has_order j \<Longrightarrow> fld j ''order'' = Some (JNum (order_num j))"
  by (auto simp: has_order_def order_num_def split: option.splits jval.splits)

section \<open>The reorder resolver: positions out of range, equal positions\<close>

text \<open>
  The resolver has no range check either. Run on its own it answers 404 when no member
  has \<open>fromOrder\<close>, and it never looks at \<open>toOrder\<close>: on three jobs ordered 0, 1, 2 the
  move from 0 to 5 leaves the orders 5, 0, 1. With equal positions it leaves the table as
  it is, and issues one \<^verbatim>\<open>update\<close> call when a member has that order.
\<close>

lemma shadowed_reorder_out_of_range:
  "fst (patch_jobs_reorder 0 0.5 0 5 three_jobs) = Reply 200 (JObj [(''success'', JBool True)]) \<and>
   map order_num (jobs (snd (patch_jobs_reorder 0 0.5 0 5 three_jobs))) = [5, 0, 1]"
  by (simp add: eval_defs world_defs)

lemma shadowed_reorder_unknown_position:
  assumes "dense (jobs w)" and "fromOrder < 0 \<or> int (length (jobs w)) - 1 < fromOrder"
  shows "reorder_calls (jobs w) fromOrder toOrder = None \<and>
         patch_jobs_reorder lat err fromOrder toOrder w =
           (if shouldSimulateError err
            then Reply 500 (error_json ''Failed to reorder jobs. Please try again.'')
            else Reply 404 (error_json ''Job not found''),
            simulateLatency lat w)"
proof -
  have st: "order_num ` set (jobs w) = {0..<int (length (jobs w))}"
    using assms(1) by (simp add: dense_iff)
  have "order_num j \<in> {0..<int (length (jobs w))}" if "j \<in> set (jobs w)" for j
    using that st by blast
  then have "\<forall>j \<in> set (jobs w). order_num j \<noteq> fromOrder"
    using assms(2) by fastforce
  then have "find (\<lambda>j. order_num j = fromOrder) (orderBy_order (jobs w)) = None"
    by (auto simp: find_None_iff dest: orderBy_subset)
  then have n: "reorder_calls (jobs w) fromOrder toOrder = None"
    by (simp add: reorder_calls_def)
  show ?thesis
    using n by (simp add: patch_jobs_reorder_def Let_def jobs_simulateLatency)
qed

lemma shadowed_reorder_same_position:
  assumes "keyed (jobs w)"
  shows "tables (snd (patch_jobs_reorder lat err x x w)) = tables w \<and>
         reorder_calls (jobs w) x x =
           map_option (\<lambda>job. [(pk job, [(''order'', JNum x)])])
             (find (\<lambda>j. order_num j = x) (orderBy_order (jobs w)))"
proof -
  have loop: "reorder_loop js x x = []" for js
    by (auto simp: reorder_loop_def)
  have calls: "reorder_calls (jobs w) x x =
           map_option (\<lambda>job. [(pk job, [(''order'', JNum x)])])
             (find (\<lambda>j. order_num j = x) (orderBy_order (jobs w)))"
    by (simp add: reorder_calls_def Let_def loop split: option.splits)
  show ?thesis
  proof (cases "find (\<lambda>j. order_num j = x) (orderBy_order (jobs w))")
    case None
    then show ?thesis
      using calls
      by (simp add: patch_jobs_reorder_def Let_def jobs_simulateLatency tables_simulateLatency)
  next
    case (Some job)
    have job: "job \<in> set (jobs w)" "has_order job" "order_num job = x"
      using Some orderBy_subset[of job "jobs w"] by (auto simp: find_Some_iff)
    have inj: "inj_on pk (set (jobs w))" using assms by (simp add: keyed_def distinct_map)
    have same: "(if has_key (pk job) r then obj_assign r [(''order'', JNum x)] else r) = r"
      if "r \<in> set (jobs w)" for r
    proof (cases "has_key (pk job) r")
      case True
      then have "pk r = pk job" by (rule has_key_pk)
      then have "r = job" using inj that job(1) by (auto dest: inj_onD)
      then show ?thesis using set_order_same[OF job(2)] job(3) by (simp add: obj_assign_single)
    next
      case False
      then show ?thesis by simp
    qed
    have "apply_calls (jobs w) [(pk job, [(''order'', JNum x)])] = jobs w"
      by (simp add: apply_calls_def tbl_update_def same cong: map_cong)
    then show ?thesis
      using calls Some
      by (auto simp: patch_jobs_reorder_def Let_def jobs_simulateLatency tables_simulateLatency
            tables_def simulateLatency_def)
  qed
qed


section \<open>The reorder request as the program serves it\<close>



text \<open>
  Claim C3, evaluated on the program. Ten jobs ordered 0 to 9 and the request to move
  position 5 to position 2, with no failure injected: the reply is 200 with an empty
  object and the ten orders are what they were, where the rule of the claim asks for the
  jobs at 2, 3, 4 to move to 3, 4, 5 and the job at 5 to move to 2. The resolver that
  implements the rule (\<open>shadowed_reorder_shifts_exactly\<close>, \<open>shadowed_reorder_ten_items\<close>)
  is not the one that serves the request.
\<close>

theorem reorder_request_reorders_nothing:
  "perform passing_draws (PatchJobsReorder 5 2) ten_jobs =
     (Reply 200 (JObj []), ten_jobs\<lparr>clock := 200\<rparr>) \<and>
   map order_num (jobs ten_jobs) = [0, 1, 2, 3, 4, 5, 6, 7, 8, 9] \<and>
   map (spec_reindex 5 2) [0, 1, 2, 3, 4, 5, 6, 7, 8, 9] = [0, 1, 3, 4, 5, 2, 6, 7, 8, 9]"
  by (simp add: patch_job_def reorder_body_def passing_draws_def spec_reindex_def order_num_def
      store_defs ten_jobs_def world_defs Let_def)







section \<open>Failure injection\<close>

lemmas handler_defs = get_jobs_def get_job_def post_jobs_def patch_job_def patch_jobs_reorder_def
  get_candidates_search_def get_candidate_def get_candidate_timeline_def patch_candidate_def
  post_candidates_def get_assessments_job_def get_assessment_def post_assessments_def
  put_assessment_def post_assessment_submit_def post_notes_def get_notes_def

lemma write_fails_early:
  assumes "is_write req" and "shouldSimulateError (failure d)"
  shows "(\<exists>msg. fst (perform d req w) = Reply 500 (error_json msg)) \<and>
         snd (perform d req w) = simulateLatency (latency d) w"
  using assms by (cases req) (auto simp: is_write_def handler_defs Let_def)

lemma read_never_injected:
  assumes "\<not> is_write req"
  shows "(\<forall>b. fst (perform d req w) \<noteq> Reply 500 b) \<and>
         perform (d\<lparr>failure := f\<rparr>) req w = perform d req w \<and>
         snd (perform d req w) = simulateLatency (latency d) w"
  using assms
  by (cases req) (simp_all add: is_write_def handler_defs Let_def split: option.splits)

text \<open>
  Claim C6. When the injected failure of a write request fires, the reply is the 500 error
  and no table has changed: nothing was created, modified or deleted. A read request never
  gets that reply, its outcome does not depend on the failure draw, and it changes no
  table either. The failure fires exactly when the draw is below 0.075: of the draws in
  \<open>[0, 1)\<close> those in \<open>[0, 0.075)\<close>, which is 7.5% of the interval.
\<close>

theorem injected_failure_persists_nothing:
  "(is_write req \<and> shouldSimulateError (failure d) \<longrightarrow>
      (\<exists>msg. fst (perform d req w) = Reply 500 (error_json msg)) \<and>
      tables (snd (perform d req w)) = tables w) \<and>
   (\<not> is_write req \<longrightarrow>
      (\<forall>b. fst (perform d req w) \<noteq> Reply 500 b) \<and>
      perform (d\<lparr>failure := f\<rparr>) req w = perform d req w \<and>
      tables (snd (perform d req w)) = tables w) \<and>
   {r. 0 \<le> r \<and> r < 1 \<and> shouldSimulateError r} = {0..<0.075}"
proof (intro conjI impI)
  show "{r. 0 \<le> r \<and> r < 1 \<and> shouldSimulateError r} = {0..<0.075}"
    by (auto simp: shouldSimulateError_def)
qed (use write_fails_early[of req d w] read_never_injected[of req d w f] in
      \<open>auto simp: tables_simulateLatency\<close>)

theorem injected_failure_persists_nothing_witness:
  "is_write (PostJobs [(''title'', JStr ''X'')]) \<and> shouldSimulateError (failure failing_draws) \<and>
   fst (perform failing_draws (PostJobs [(''title'', JStr ''X'')]) three_jobs) =
     Reply 500 (error_json ''Failed to create job. Please try again.'') \<and>
   tables (snd (perform failing_draws (PostJobs [(''title'', JStr ''X'')]) three_jobs)) = tables three_jobs \<and>
   \<not> is_write (GetJob ''a'') \<and>
   fst (perform failing_draws (GetJob ''a'') three_jobs) = Reply 200 (JObj [(''data'', JObj (job_rec ''a'' 0))]) \<and>
   tables (snd (perform failing_draws (GetJob ''a'') three_jobs)) = tables three_jobs"
proof -
  let ?req = "PostJobs [(''title'', JStr ''X'')]"
  have w: "is_write ?req" by (simp add: is_write_def)
  have e: "shouldSimulateError (failure failing_draws)"
    by (simp add: shouldSimulateError_def failing_draws_def)
  have r: "\<not> is_write (GetJob ''a'')" by (simp add: is_write_def)
  note t = injected_failure_persists_nothing[of ?req failing_draws three_jobs 0]
  note u = injected_failure_persists_nothing[of "GetJob ''a''" failing_draws three_jobs 0]
  have t1: "tables (snd (perform failing_draws ?req three_jobs)) = tables three_jobs"
    using t w e by blast
  have u1: "tables (snd (perform failing_draws (GetJob ''a'') three_jobs)) = tables three_jobs"
    using u r by blast
  have f: "fst (perform failing_draws ?req three_jobs) =
     Reply 500 (error_json ''Failed to create job. Please try again.'')"
    by (simp add: post_jobs_def e)
  have g: "fst (perform failing_draws (GetJob ''a'') three_jobs) =
     Reply 200 (JObj [(''data'', JObj (job_rec ''a'' 0))])"
    by (simp add: get_job_def tbl_get_def has_key_def fld_def simulateLatency_def world_defs)
  show ?thesis by (intro conjI) (rule w e f t1 r g u1)+
qed

section \<open>Creating records\<close>

lemma find_insort_new:
  "\<forall>x \<in> set t. \<not> P x \<Longrightarrow> P r \<Longrightarrow> find P (insort_key f r t) = Some r"
  by (induction t) auto

lemma tbl_add_get:
  assumes "tbl_add t r = Inr t'" and "fld r ''id'' = Some (JStr k)"
  shows "tbl_get t' k = Some r \<and> mset t' = add_mset r (mset t)"
proof -
  have none: "tbl_get t k = None" and t': "t' = insort_key pk r t"
    using assms by (auto simp: tbl_add_def split: if_splits)
  have "\<forall>x \<in> set t. \<not> has_key k x"
    using none by (simp add: tbl_get_def find_None_iff)
  moreover have "has_key k r" using assms(2) by (simp add: has_key_def)
  ultimately show ?thesis
    unfolding t' tbl_get_def by (simp add: find_insort_new)
qed

lemma fld_assign3:
  "fld (assign k3 v3 (assign k2 v2 (assign k1 v1 r))) k =
     (if k = k3 then Some v3 else if k = k2 then Some v2 else if k = k1 then Some v1 else fld r k)"
  by (simp add: fld_assign)

lemma post_jobs_committed:
  assumes "post_jobs lat err uuid body w = (Reply 200 b, w')"
  shows "\<exists>job. b = JObj [(''data'', JObj job)] \<and> tbl_get (jobs w') uuid = Some job \<and>
           fld job ''id'' = Some (JStr uuid) \<and>
           (\<forall>k. k \<notin> {''id'', ''createdAt'', ''updatedAt''} \<longrightarrow> fld job k = fld body k)"
proof -
  let ?w1 = "simulateLatency lat w"
  let ?job = "assign ''updatedAt'' (now_iso ?w1)
                (assign ''createdAt'' (now_iso ?w1) (assign ''id'' (JStr uuid) body))"
  obtain t where a: "tbl_add (jobs ?w1) ?job = Inr t" and b: "b = JObj [(''data'', JObj ?job)]"
    and w': "w' = ?w1\<lparr>jobs := t\<rparr>"
    using assms by (auto simp: post_jobs_def Let_def split: if_splits sum.splits)
  have i: "fld ?job ''id'' = Some (JStr uuid)" by (simp add: fld_assign)
  show ?thesis
    using tbl_add_get[OF a i] b i by (auto simp: w' fld_assign)
qed

lemma post_assessments_committed:
  assumes "post_assessments lat err uuid body w = (Reply 200 b, w')"
  shows "\<exists>a. b = JObj [(''data'', JObj a)] \<and> tbl_get (assessments w') uuid = Some a \<and>
           fld a ''id'' = Some (JStr uuid) \<and>
           (\<forall>k. k \<notin> {''id'', ''createdAt'', ''updatedAt''} \<longrightarrow> fld a k = fld body k)"
proof -
  let ?w1 = "simulateLatency lat w"
  let ?a = "assign ''updatedAt'' (now_iso ?w1)
                (assign ''createdAt'' (now_iso ?w1) (assign ''id'' (JStr uuid) body))"
  obtain t where a: "tbl_add (assessments ?w1) ?a = Inr t" and b: "b = JObj [(''data'', JObj ?a)]"
    and w': "w' = ?w1\<lparr>assessments := t\<rparr>"
    using assms by (auto simp: post_assessments_def Let_def split: if_splits sum.splits)
  have i: "fld ?a ''id'' = Some (JStr uuid)" by (simp add: fld_assign)
  show ?thesis
    using tbl_add_get[OF a i] b i by (auto simp: w' fld_assign)
qed

lemma post_candidates_committed:
  assumes "post_candidates lat err u1 u2 body w = (Reply 200 b, w')"
  shows "\<exists>c. b = JObj [(''data'', JObj c)] \<and> tbl_get (candidates w') u1 = Some c \<and>
           mset (candidates w') = add_mset c (mset (candidates w)) \<and>
           mset (timeline w') =
             add_mset (application_event u2 (Some (JStr u1)) (now_iso (simulateLatency lat w)))
               (mset (timeline w)) \<and>
           fld c ''id'' = Some (JStr u1) \<and> fld c ''stage'' = Some (JStr ''applied'') \<and>
           (\<forall>k. k \<notin> {''id'', ''stage'', ''appliedAt'', ''updatedAt''} \<longrightarrow> fld c k = fld body k)"
proof -
  let ?w1 = "simulateLatency lat w"
  let ?c = "assign ''updatedAt'' (now_iso ?w1)
              (assign ''appliedAt'' (now_iso ?w1)
                (assign ''stage'' (JStr ''applied'') (assign ''id'' (JStr u1) body)))"
  let ?e = "application_event u2 (Some (JStr u1)) (now_iso ?w1)"
  have i: "fld ?c ''id'' = Some (JStr u1)" by (simp add: fld_assign)
  have n: "now_iso (?w1\<lparr>candidates := cs\<rparr>) = now_iso ?w1" for cs by (simp add: now_iso_def)
  obtain cs evs where a: "tbl_add (candidates ?w1) ?c = Inr cs"
    and e: "tbl_add (timeline ?w1) ?e = Inr evs"
    and b: "b = JObj [(''data'', JObj ?c)]"
    and w': "w' = ?w1\<lparr>candidates := cs, timeline := evs\<rparr>"
    using assms by (auto simp: post_candidates_def Let_def i n split: if_splits sum.splits)
  have ei: "fld ?e ''id'' = Some (JStr u2)" by (simp add: application_event_def props_def fld_def)
  show ?thesis
    using tbl_add_get[OF a i] tbl_add_get[OF e ei] b i
    by (auto simp: w' fld_assign simulateLatency_def)
qed

lemma get_job_found:
  "tbl_get (jobs w) k = Some job \<Longrightarrow>
   get_job lat k w = (Reply 200 (JObj [(''data'', JObj job)]), simulateLatency lat w)"
  by (simp add: get_job_def jobs_simulateLatency)

lemma get_assessment_found:
  "tbl_get (assessments w) k = Some a \<Longrightarrow>
   get_assessment lat k w = (Reply 200 (JObj [(''data'', JObj a)]), simulateLatency lat w)"
  by (simp add: get_assessment_def simulateLatency_def)

lemma get_candidate_found:
  "tbl_get (candidates w) k = Some c \<Longrightarrow>
   get_candidate lat k w = (Reply 200 (JObj [(''data'', JObj c)]), simulateLatency lat w)"
  by (simp add: get_candidate_def simulateLatency_def)

text \<open>
  Claim C7, amended. A successful create followed by a get of the returned id gives back
  the record with every supplied field unchanged, except, for jobs and assessments, the
  generated \<open>id\<close>, \<open>createdAt\<close> and \<open>updatedAt\<close>, and, for candidates, the generated
  \<open>id\<close>, \<open>appliedAt\<close> and \<open>updatedAt\<close> and the \<open>stage\<close>, which is always \<open>applied\<close>.
\<close>

theorem create_get_round_trip:
  "(perform d (PostJobs body) w = (Reply 200 b, w') \<longrightarrow>
      (\<exists>job. b = JObj [(''data'', JObj job)] \<and> fld job ''id'' = Some (JStr (uuid1 d)) \<and>
         perform d' (GetJob (uuid1 d)) w' =
           (Reply 200 (JObj [(''data'', JObj job)]), simulateLatency (latency d') w') \<and>
         (\<forall>k. k \<notin> {''id'', ''createdAt'', ''updatedAt''} \<longrightarrow> fld job k = fld body k))) \<and>
   (perform d (PostAssessments body) w = (Reply 200 b, w') \<longrightarrow>
      (\<exists>a. b = JObj [(''data'', JObj a)] \<and> fld a ''id'' = Some (JStr (uuid1 d)) \<and>
         perform d' (GetAssessment (uuid1 d)) w' =
           (Reply 200 (JObj [(''data'', JObj a)]), simulateLatency (latency d') w') \<and>
         (\<forall>k. k \<notin> {''id'', ''createdAt'', ''updatedAt''} \<longrightarrow> fld a k = fld body k))) \<and>
   (perform d (PostCandidates body) w = (Reply 200 b, w') \<longrightarrow>
      (\<exists>c. b = JObj [(''data'', JObj c)] \<and> fld c ''id'' = Some (JStr (uuid1 d)) \<and>
         perform d' (GetCandidate (uuid1 d)) w' =
           (Reply 200 (JObj [(''data'', JObj c)]), simulateLatency (latency d') w') \<and>
         fld c ''stage'' = Some (JStr ''applied'') \<and>
         (\<forall>k. k \<notin> {''id'', ''stage'', ''appliedAt'', ''updatedAt''} \<longrightarrow> fld c k = fld body k)))"
proof (intro conjI impI)
  assume "perform d (PostJobs body) w = (Reply 200 b, w')"
  then obtain job where "b = JObj [(''data'', JObj job)]" "tbl_get (jobs w') (uuid1 d) = Some job"
    "fld job ''id'' = Some (JStr (uuid1 d))"
    "\<forall>k. k \<notin> {''id'', ''createdAt'', ''updatedAt''} \<longrightarrow> fld job k = fld body k"
    using post_jobs_committed[of "latency d" "failure d" "uuid1 d" body w b w'] by auto
  then show "\<exists>job. b = JObj [(''data'', JObj job)] \<and> fld job ''id'' = Some (JStr (uuid1 d)) \<and>
         perform d' (GetJob (uuid1 d)) w' =
           (Reply 200 (JObj [(''data'', JObj job)]), simulateLatency (latency d') w') \<and>
         (\<forall>k. k \<notin> {''id'', ''createdAt'', ''updatedAt''} \<longrightarrow> fld job k = fld body k)"
    using get_job_found[of w' "uuid1 d" job "latency d'"] by auto
next
  assume "perform d (PostAssessments body) w = (Reply 200 b, w')"
  then obtain a where "b = JObj [(''data'', JObj a)]" "tbl_get (assessments w') (uuid1 d) = Some a"
    "fld a ''id'' = Some (JStr (uuid1 d))"
    "\<forall>k. k \<notin> {''id'', ''createdAt'', ''updatedAt''} \<longrightarrow> fld a k = fld body k"
    using post_assessments_committed[of "latency d" "failure d" "uuid1 d" body w b w'] by auto
  then show "\<exists>a. b = JObj [(''data'', JObj a)] \<and> fld a ''id'' = Some (JStr (uuid1 d)) \<and>
         perform d' (GetAssessment (uuid1 d)) w' =
           (Reply 200 (JObj [(''data'', JObj a)]), simulateLatency (latency d') w') \<and>
         (\<forall>k. k \<notin> {''id'', ''createdAt'', ''updatedAt''} \<longrightarrow> fld a k = fld body k)"
    using get_assessment_found[of w' "uuid1 d" a "latency d'"] by auto
next
  assume "perform d (PostCandidates body) w = (Reply 200 b, w')"
  then obtain c where "b = JObj [(''data'', JObj c)]" "tbl_get (candidates w') (uuid1 d) = Some c"
    "fld c ''id'' = Some (JStr (uuid1 d))" "fld c ''stage'' = Some (JStr ''applied'')"
    "\<forall>k. k \<notin> {''id'', ''stage'', ''appliedAt'', ''updatedAt''} \<longrightarrow> fld c k = fld body k"
    using post_candidates_committed[of "latency d" "failure d" "uuid1 d" "uuid2 d" body w b w'] by auto
  then show "\<exists>c. b = JObj [(''data'', JObj c)] \<and> fld c ''id'' = Some (JStr (uuid1 d)) \<and>
         perform d' (GetCandidate (uuid1 d)) w' =
           (Reply 200 (JObj [(''data'', JObj c)]), simulateLatency (latency d') w') \<and>
         fld c ''stage'' = Some (JStr ''applied'') \<and>
         (\<forall>k. k \<notin> {''id'', ''stage'', ''appliedAt'', ''updatedAt''} \<longrightarrow> fld c k = fld body k)"
    using get_candidate_found[of w' "uuid1 d" c "latency d'"] by auto
qed

lemma post_job_run:
  "perform passing_draws (PostJobs new_job_body) three_jobs =
     (Reply 200 (JObj [(''data'', JObj new_job)]),
      three_jobs\<lparr>jobs := jobs three_jobs @ [new_job], clock := 200\<rparr>)"
  by (simp add: post_jobs_def passing_draws_def new_job_body_def new_job_def store_defs world_defs Let_def)

theorem create_get_round_trip_witness:
  "perform passing_draws (PostJobs new_job_body) three_jobs =
     (Reply 200 (JObj [(''data'', JObj new_job)]),
      three_jobs\<lparr>jobs := jobs three_jobs @ [new_job], clock := 200\<rparr>) \<and>
   fst (perform passing_draws (GetJob ''u1'')
          (three_jobs\<lparr>jobs := jobs three_jobs @ [new_job], clock := 200\<rparr>)) =
     Reply 200 (JObj [(''data'', JObj new_job)]) \<and>
   map (fld new_job) [''title'', ''status'', ''order''] =
     map (fld new_job_body) [''title'', ''status'', ''order'']"
proof -
  let ?w' = "three_jobs\<lparr>jobs := jobs three_jobs @ [new_job], clock := 200\<rparr>"
  note t = create_get_round_trip[of passing_draws new_job_body three_jobs
      "JObj [(''data'', JObj new_job)]" ?w' passing_draws]
  from mp[OF conjunct1[OF t] post_job_run]
  obtain job where j: "JObj [(''data'', JObj new_job)] = JObj [(''data'', JObj job)]"
    and g: "perform passing_draws (GetJob (uuid1 passing_draws)) ?w' =
           (Reply 200 (JObj [(''data'', JObj job)]), simulateLatency (latency passing_draws) ?w')"
    by (elim exE conjE)
  have u: "uuid1 passing_draws = ''u1''" by (simp add: passing_draws_def)
  have n: "job = new_job" using j by simp
  have g': "fst (perform passing_draws (GetJob ''u1'') ?w') = Reply 200 (JObj [(''data'', JObj new_job)])"
    using g unfolding u n by simp
  have f: "map (fld new_job) [''title'', ''status'', ''order''] =
     map (fld new_job_body) [''title'', ''status'', ''order'']"
    by (simp add: new_job_def new_job_body_def fld_def)
  show ?thesis by (intro conjI) (rule post_job_run g' f)+
qed

text \<open>
  Claim C7, as stated, fails for candidates: a candidate supplied with stage \<open>screen\<close>
  is read back with stage \<open>applied\<close>, a field that is neither an id nor a timestamp.
\<close>

theorem create_get_round_trip_counterexample:
  "fst (perform passing_draws (PostCandidates eager_body) empty_world) =
     Reply 200 (JObj [(''data'', JObj bo)]) \<and>
   fst (perform passing_draws (GetCandidate ''u1'')
          (snd (perform passing_draws (PostCandidates eager_body) empty_world))) =
     Reply 200 (JObj [(''data'', JObj bo)]) \<and>
   fld eager_body ''stage'' = Some (JStr ''screen'') \<and>
   fld bo ''stage'' = Some (JStr ''applied'')"
  by (simp add: post_candidates_def get_candidate_def application_event_def passing_draws_def
      eager_body_def bo_def store_defs world_defs Let_def)

text \<open>
  Claim C10. A candidate created through the create endpoint is stored with stage
  \<open>applied\<close> whatever the body says, and the timeline gains exactly one entry: of type
  \<open>stage_change\<close>, to stage \<open>applied\<close>, for the new candidate.
\<close>

theorem created_candidate_is_applied:
  assumes "perform d (PostCandidates body) w = (Reply 200 b, w')"
  shows "\<exists>c e. b = JObj [(''data'', JObj c)] \<and>
           tbl_get (candidates w') (uuid1 d) = Some c \<and>
           mset (candidates w') = add_mset c (mset (candidates w)) \<and>
           fld c ''stage'' = Some (JStr ''applied'') \<and>
           mset (timeline w') = add_mset e (mset (timeline w)) \<and>
           fld e ''candidateId'' = Some (JStr (uuid1 d)) \<and>
           fld e ''type'' = Some (JStr ''stage_change'') \<and>
           fld e ''toStage'' = Some (JStr ''applied'')"
proof -
  let ?e = "application_event (uuid2 d) (Some (JStr (uuid1 d))) (now_iso (simulateLatency (latency d) w))"
  obtain c where c: "b = JObj [(''data'', JObj c)]" "tbl_get (candidates w') (uuid1 d) = Some c"
      "mset (candidates w') = add_mset c (mset (candidates w))"
      "mset (timeline w') = add_mset ?e (mset (timeline w))"
      "fld c ''stage'' = Some (JStr ''applied'')"
    using post_candidates_committed[of "latency d" "failure d" "uuid1 d" "uuid2 d" body w b w'] assms
    by auto
  have e: "fld ?e ''candidateId'' = Some (JStr (uuid1 d))"
      "fld ?e ''type'' = Some (JStr ''stage_change'')"
      "fld ?e ''toStage'' = Some (JStr ''applied'')"
    by (simp_all add: application_event_def props_def fld_def)
  show ?thesis
    by (intro exI[of _ c] exI[of _ ?e] conjI) (rule c e)+
qed

lemma post_candidate_run:
  "perform passing_draws (PostCandidates eager_body) one_candidate =
     (Reply 200 (JObj [(''data'', JObj bo)]),
      one_candidate\<lparr>candidates := [ada, bo], timeline := [bo_applied], clock := 200\<rparr>)"
  by (simp add: post_candidates_def application_event_def passing_draws_def
      eager_body_def bo_def bo_applied_def ada_def one_candidate_def store_defs world_defs Let_def)

theorem created_candidate_is_applied_witness:
  "perform passing_draws (PostCandidates eager_body) one_candidate =
     (Reply 200 (JObj [(''data'', JObj bo)]),
      one_candidate\<lparr>candidates := [ada, bo], timeline := [bo_applied], clock := 200\<rparr>) \<and>
   fld eager_body ''stage'' = Some (JStr ''screen'') \<and>
   fld bo ''stage'' = Some (JStr ''applied'') \<and>
   map (fld bo_applied) [''candidateId'', ''type'', ''toStage''] =
     [Some (JStr ''u1''), Some (JStr ''stage_change''), Some (JStr ''applied'')] \<and>
   size (mset (timeline (one_candidate\<lparr>candidates := [ada, bo], timeline := [bo_applied], clock := 200\<rparr>))) =
     Suc (size (mset (timeline one_candidate)))"
proof -
  let ?w' = "one_candidate\<lparr>candidates := [ada, bo], timeline := [bo_applied], clock := 200\<rparr>"
  from created_candidate_is_applied[OF post_candidate_run]
  obtain e where "mset (timeline ?w') = add_mset e (mset (timeline one_candidate))"
    by (elim exE conjE)
  then have n: "size (mset (timeline ?w')) = Suc (size (mset (timeline one_candidate)))"
    by (simp only: size_add_mset)
  have f: "fld eager_body ''stage'' = Some (JStr ''screen'')" "fld bo ''stage'' = Some (JStr ''applied'')"
    "map (fld bo_applied) [''candidateId'', ''type'', ''toStage''] =
     [Some (JStr ''u1''), Some (JStr ''stage_change''), Some (JStr ''applied'')]"
    by (simp_all add: eager_body_def bo_def bo_applied_def fld_def)
  show ?thesis by (intro conjI) (rule post_candidate_run f n)+
qed

section \<open>List replies\<close>

















section \<open>Stage changes and the timeline\<close>

lemma obj_assign_stage:
  "obj_assign r (assign ''updatedAt'' now (updateStage_body s)) =
     assign ''updatedAt'' now (assign ''stage'' (JStr s) r)"
  by (simp add: obj_assign_def updateStage_body_def assign_def)

lemma tbl_get_update_stage:
  "tbl_get (tbl_update t k (assign ''updatedAt'' now (updateStage_body s))) k =
     map_option (\<lambda>r. assign ''updatedAt'' now (assign ''stage'' (JStr s) r)) (tbl_get t k)"
proof -
  have "has_key k (assign ''updatedAt'' now (assign ''stage'' (JStr s) r)) = has_key k r" for r
    by (simp add: has_key_assign)
  then show ?thesis
    by (induction t) (simp_all add: tbl_get_def tbl_update_def obj_assign_stage)
qed

lemma patch_stage_committed:
  assumes g: "tbl_get (candidates w) k = Some c"
    and st: "fld c ''stage'' = Some (JStr s0)" and ne: "s \<noteq> s0" "s \<noteq> []"
    and p: "patch_candidate lat err uuid k (updateStage_body s) w = (Reply 200 b, w')"
  shows "mset (timeline w') =
           add_mset (stage_change_event uuid k (Some (JStr s0)) (Some (JStr s))
                       (JNum \<lfloor>clock w + (lat * (1200 - 200) + 200)\<rfloor>)) (mset (timeline w)) \<and>
         (\<exists>c'. tbl_get (candidates w') k = Some c' \<and> fld c' ''stage'' = Some (JStr s)) \<and>
         clock w' = clock w + (lat * (1200 - 200) + 200)"
proof -
  let ?w1 = "simulateLatency lat w"
  let ?e = "stage_change_event uuid k (Some (JStr s0)) (Some (JStr s)) (now_iso ?w1)"
  have g1: "tbl_get (candidates ?w1) k = Some c" using g by (simp add: simulateLatency_def)
  have u: "fld (updateStage_body s) ''stage'' = Some (JStr s)"
    by (simp add: updateStage_body_def fld_def)
  have tr: "truthy (fld (updateStage_body s) ''stage'') \<and>
            strict_neq (fld (updateStage_body s) ''stage'') (fld c ''stage'')"
    using ne by (simp add: u st)
  obtain evs where a: "tbl_add (timeline ?w1) ?e = Inr evs"
    and w': "w' = ?w1\<lparr>timeline := evs,
               candidates := tbl_update (candidates ?w1) k
                  (assign ''updatedAt'' (now_iso ?w1) (updateStage_body s))\<rparr>"
    using p tr by (auto simp: patch_candidate_def Let_def g1 u st split: if_splits sum.splits)
  have ei: "fld ?e ''id'' = Some (JStr uuid)"
    by (simp add: stage_change_event_def props_def fld_def)
  have m: "mset evs = add_mset ?e (mset (timeline ?w1))" using tbl_add_get[OF a ei] by simp
  have c': "tbl_get (candidates w') k =
       Some (assign ''updatedAt'' (now_iso ?w1) (assign ''stage'' (JStr s) c))"
    by (simp add: w' tbl_get_update_stage g1)
  show ?thesis
    using m c' by (simp add: w' fld_assign now_iso_def simulateLatency_def)
qed

lemma stage_event_fields:
  "fld (stage_change_event u k (Some a) (Some b) (JNum t)) ''candidateId'' = Some (JStr k)"
  "fld (stage_change_event u k (Some a) (Some b) (JNum t)) ''type'' = Some (JStr ''stage_change'')"
  "fld (stage_change_event u k (Some a) (Some b) (JNum t)) ''fromStage'' = Some a"
  "fld (stage_change_event u k (Some a) (Some b) (JNum t)) ''toStage'' = Some b"
  "time_of (stage_change_event u k (Some a) (Some b) (JNum t)) ''createdAt'' = t"
  by (simp_all add: stage_change_event_def props_def fld_def time_of_def)

lemma floor_less_next:
  fixes x y :: real
  assumes "x + 1 \<le> y"
  shows "\<lfloor>x\<rfloor> < \<lfloor>y\<rfloor>"
proof -
  have "\<lfloor>x + 1\<rfloor> \<le> \<lfloor>y\<rfloor>" using assms by (rule floor_mono)
  moreover have "\<lfloor>x + 1\<rfloor> = \<lfloor>x\<rfloor> + 1" by simp
  ultimately show ?thesis by linarith
qed

text \<open>
  Claim C9. A candidate in stage \<open>applied\<close> is moved to \<open>screen\<close> and then to \<open>tech\<close> by
  two committed stage mutations, the second sent once the first has been answered. The
  timeline gains exactly two entries for the candidate, from \<open>applied\<close> to \<open>screen\<close> and
  from \<open>screen\<close> to \<open>tech\<close>, the second created strictly later than the first.
\<close>

theorem two_stage_moves_two_events:
  assumes "tbl_get (candidates w0) k = Some c" and "fld c ''stage'' = Some (JStr ''applied'')"
    and "perform d1 (PatchCandidate k (updateStage_body ''screen'')) w0 = (Reply 200 b1, w1)"
    and "clock w1 \<le> t" and "0 \<le> latency d2"
    and "perform d2 (PatchCandidate k (updateStage_body ''tech'')) (w1\<lparr>clock := t\<rparr>) = (Reply 200 b2, w2)"
  shows "\<exists>e1 e2. mset (timeline w2) = add_mset e2 (add_mset e1 (mset (timeline w0))) \<and>
           fld e1 ''candidateId'' = Some (JStr k) \<and> fld e2 ''candidateId'' = Some (JStr k) \<and>
           fld e1 ''type'' = Some (JStr ''stage_change'') \<and>
           fld e2 ''type'' = Some (JStr ''stage_change'') \<and>
           fld e1 ''fromStage'' = Some (JStr ''applied'') \<and> fld e1 ''toStage'' = Some (JStr ''screen'') \<and>
           fld e2 ''fromStage'' = Some (JStr ''screen'') \<and> fld e2 ''toStage'' = Some (JStr ''tech'') \<and>
           time_of e1 ''createdAt'' < time_of e2 ''createdAt''"
proof -
  let ?t1 = "\<lfloor>clock w0 + (latency d1 * (1200 - 200) + 200)\<rfloor>"
  let ?t2 = "\<lfloor>t + (latency d2 * (1200 - 200) + 200)\<rfloor>"
  let ?e1 = "stage_change_event (uuid1 d1) k (Some (JStr ''applied'')) (Some (JStr ''screen'')) (JNum ?t1)"
  let ?e2 = "stage_change_event (uuid1 d2) k (Some (JStr ''screen'')) (Some (JStr ''tech'')) (JNum ?t2)"
  have p1: "patch_candidate (latency d1) (failure d1) (uuid1 d1) k (updateStage_body ''screen'') w0 =
            (Reply 200 b1, w1)"
    using assms(3) by simp
  note s1 = patch_stage_committed[OF assms(1,2) _ _ p1]
  have m1: "mset (timeline w1) = add_mset ?e1 (mset (timeline w0))"
    and c1: "clock w1 = clock w0 + (latency d1 * (1200 - 200) + 200)"
    using s1 by simp_all
  obtain c' where g1: "tbl_get (candidates w1) k = Some c'"
    and st1: "fld c' ''stage'' = Some (JStr ''screen'')"
    using s1 by auto
  have g1': "tbl_get (candidates (w1\<lparr>clock := t\<rparr>)) k = Some c'" using g1 by simp
  have p2: "patch_candidate (latency d2) (failure d2) (uuid1 d2) k (updateStage_body ''tech'')
              (w1\<lparr>clock := t\<rparr>) = (Reply 200 b2, w2)"
    using assms(6) by simp
  note s2 = patch_stage_committed[OF g1' st1 _ _ p2]
  have m2: "mset (timeline w2) = add_mset ?e2 (add_mset ?e1 (mset (timeline w0)))"
    using s2 m1 by simp
  have "clock w0 + (latency d1 * (1200 - 200) + 200) + 1 \<le> t + (latency d2 * (1200 - 200) + 200)"
    using assms(4,5) c1 by simp
  then have lt: "?t1 < ?t2" by (rule floor_less_next)
  show ?thesis
    by (intro exI[of _ ?e1] exI[of _ ?e2] conjI)
       (simp_all only: m2 stage_event_fields lt)
qed

lemmas stage_run_defs = patch_candidate_def stage_change_event_def template_def updateStage_body_def
  passing_draws_def later_draws_def ada_screened_def ada_tech_def after_screen_def after_tech_def
  ada_def one_candidate_def store_defs world_defs Let_def

lemma screen_run:
  "perform passing_draws (PatchCandidate ''c1'' (updateStage_body ''screen'')) one_candidate =
     (Reply 200 (JObj [(''data'', JObj (hd (candidates after_screen)))]), after_screen)"
  by (simp add: stage_run_defs)

lemma tech_run:
  "perform later_draws (PatchCandidate ''c1'' (updateStage_body ''tech'')) (after_screen\<lparr>clock := 200\<rparr>) =
     (Reply 200 (JObj [(''data'', JObj (hd (candidates after_tech)))]), after_tech)"
  by (simp add: stage_run_defs)

theorem two_stage_moves_two_events_witness:
  "tbl_get (candidates one_candidate) ''c1'' = Some ada \<and>
   fld ada ''stage'' = Some (JStr ''applied'') \<and>
   perform passing_draws (PatchCandidate ''c1'' (updateStage_body ''screen'')) one_candidate =
     (Reply 200 (JObj [(''data'', JObj (hd (candidates after_screen)))]), after_screen) \<and>
   clock after_screen \<le> 200 \<and> 0 \<le> latency later_draws \<and>
   perform later_draws (PatchCandidate ''c1'' (updateStage_body ''tech'')) (after_screen\<lparr>clock := 200\<rparr>) =
     (Reply 200 (JObj [(''data'', JObj (hd (candidates after_tech)))]), after_tech) \<and>
   timeline one_candidate = [] \<and> timeline after_tech = [ada_screened, ada_tech] \<and>
   time_of ada_screened ''createdAt'' < time_of ada_tech ''createdAt'' \<and>
   size (mset (timeline after_tech)) = Suc (Suc (size (mset (timeline one_candidate))))"
proof -
  have g: "tbl_get (candidates one_candidate) ''c1'' = Some ada"
    by (simp add: one_candidate_def ada_def store_defs)
  have s: "fld ada ''stage'' = Some (JStr ''applied'')" by (simp add: ada_def fld_def)
  have c: "clock after_screen \<le> 200" by (simp add: after_screen_def)
  have l: "0 \<le> latency later_draws" by (simp add: later_draws_def)
  have t0: "timeline one_candidate = []" by (simp add: one_candidate_def world_defs)
  have t2: "timeline after_tech = [ada_screened, ada_tech]" by (simp add: after_tech_def)
  have lt: "time_of ada_screened ''createdAt'' < time_of ada_tech ''createdAt''"
    by (simp add: time_of_def ada_screened_def ada_tech_def fld_def)
  from two_stage_moves_two_events[OF g s screen_run c l tech_run]
  obtain e1 e2 where "mset (timeline after_tech) = add_mset e2 (add_mset e1 (mset (timeline one_candidate)))"
    by (elim exE conjE)
  then have n: "size (mset (timeline after_tech)) = Suc (Suc (size (mset (timeline one_candidate))))"
    by (simp only: size_add_mset)
  show ?thesis by (intro conjI) (rule g s screen_run c l tech_run t0 t2 lt n)+
qed


section \<open>Rollback of a failed mutation\<close>

lemma fetchApi_injected: "fetchApi (Reply 500 (error_json msg)) = Inl ''HTTP 500''"
  by (simp add: fetchApi_def error_json_def jfld_def fld_def)

lemma one_failed_call:
  "mutationFn 0 = Inl e \<Longrightarrow> run_attempts mutation_retry 0 mutationFn = (Inl e, 1)"
  by (subst run_attempts.simps) (simp add: mutation_retry_def)

lemma restore_snapshot:
  assumes "c k = Some v"
  shows "setQueryData (setQueryData (cancelQueries c prefix) k f) k (\<lambda>_. getQueryData (cancelQueries c prefix) k) = c"
  using assms
  by (auto simp: setQueryData_def cancelQueries_def getQueryData_def split: option.splits)

lemma archive_rollback:
  assumes "c [''jobs'', activeTab] = Some v" and "mutationFn 0 = Inl e"
  shows "archiveMutation activeTab k mutationFn c =
           (c, [error_toast ''Failed to update job status. Please try again.''], 1)"
  using restore_snapshot[of c "[''jobs'', activeTab]" v, OF assms(1)]
  by (simp add: archiveMutation_def useMutation_def archive_onMutate_def archive_onError_def
        one_failed_call[of mutationFn e, OF assms(2)] Let_def)

lemma stage_rollback:
  assumes "c [''candidate'', k] = Some v" and "mutationFn 0 = Inl e"
  shows "stageMutation k newStage mutationFn c =
           (c, [error_toast ''Failed to update candidate stage. Please try again.''], 1)"
  using restore_snapshot[of c "[''candidate'', k]" v, OF assms(1)]
  by (simp add: stageMutation_def useMutation_def stage_onMutate_def stage_onError_def
        one_failed_call[of mutationFn e, OF assms(2)] Let_def)

lemma kanban_rollback:
  assumes "c [''candidates'', ''all''] = Some v" and "mutationFn 0 = Inl e"
  shows "updateStageMutation k newStage now mutationFn c =
           (c, [error_toast ''Failed to update candidate stage. Please try again.''], 1)"
  using restore_snapshot[of c "[''candidates'', ''all'']" v, OF assms(1)]
  by (simp add: updateStageMutation_def useMutation_def kanban_onMutate_def kanban_onError_def
        one_failed_call[of mutationFn e, OF assms(2)] Let_def)

text \<open>
  Why the amended claim asks for cached data under the key: with none, \<^verbatim>\<open>onMutate\<close>
  remembers \<^verbatim>\<open>undefined\<close> and creates an entry, and the \<^verbatim>\<open>setQueryData\<close> of \<^verbatim>\<open>onError\<close>
  with that \<^verbatim>\<open>undefined\<close> changes nothing, so the entry stays. The pages start these
  mutations from buttons that are only drawn once the data is there.
\<close>

lemma archive_rollback_without_data:
  assumes "c [''jobs'', activeTab] = None" and "mutationFn 0 = Inl e"
  shows "fst (archiveMutation activeTab jobId mutationFn c) [''jobs'', activeTab] =
           Some (JObj [(''data'', JArr [])])"
  using assms(1)
  by (simp add: archiveMutation_def useMutation_def archive_onMutate_def archive_onError_def
        archive_optimistic_def setQueryData_def cancelQueries_def getQueryData_def items_def
        jfld_def spread_def assign_def one_failed_call[of mutationFn e, OF assms(2)] Let_def)

text \<open>
  Claim C2, amended. The three mutations that remember the cached data when they start
  (archiving a job, changing a candidate's stage on the detail page and on the board)
  behave as follows when the mutation function fails, nothing else touches the cache
  meanwhile, and the affected query key holds data: the cache after \<^verbatim>\<open>onError\<close> holds,
  for every key, the data it held before \<^verbatim>\<open>onMutate\<close>; an error toast is shown; the
  mutation function was called once. The injected failure reaches the mutation as the
  error \<open>HTTP 500\<close>.
\<close>

theorem failed_mutation_restores_snapshot:
  "(c [''jobs'', activeTab] \<noteq> None \<and> mutationFn 0 = Inl e \<longrightarrow>
      archiveMutation activeTab jobId mutationFn c =
        (c, [error_toast ''Failed to update job status. Please try again.''], 1)) \<and>
   (c [''candidate'', k] \<noteq> None \<and> mutationFn 0 = Inl e \<longrightarrow>
      stageMutation k newStage mutationFn c =
        (c, [error_toast ''Failed to update candidate stage. Please try again.''], 1)) \<and>
   (c [''candidates'', ''all''] \<noteq> None \<and> mutationFn 0 = Inl e \<longrightarrow>
      updateStageMutation k newStage now mutationFn c =
        (c, [error_toast ''Failed to update candidate stage. Please try again.''], 1)) \<and>
   fetchApi (Reply 500 (error_json msg)) = Inl ''HTTP 500''"
proof (intro conjI impI)
  assume "c [''jobs'', activeTab] \<noteq> None \<and> mutationFn 0 = Inl e"
  then obtain v where "c [''jobs'', activeTab] = Some v" "mutationFn 0 = Inl e" by auto
  then show "archiveMutation activeTab jobId mutationFn c =
        (c, [error_toast ''Failed to update job status. Please try again.''], 1)"
    by (rule archive_rollback)
next
  assume "c [''candidate'', k] \<noteq> None \<and> mutationFn 0 = Inl e"
  then obtain v where "c [''candidate'', k] = Some v" "mutationFn 0 = Inl e" by auto
  then show "stageMutation k newStage mutationFn c =
        (c, [error_toast ''Failed to update candidate stage. Please try again.''], 1)"
    by (rule stage_rollback)
next
  assume "c [''candidates'', ''all''] \<noteq> None \<and> mutationFn 0 = Inl e"
  then obtain v where "c [''candidates'', ''all''] = Some v" "mutationFn 0 = Inl e" by auto
  then show "updateStageMutation k newStage now mutationFn c =
        (c, [error_toast ''Failed to update candidate stage. Please try again.''], 1)"
    by (rule kanban_rollback)
next
  show "fetchApi (Reply 500 (error_json msg)) = Inl ''HTTP 500''" by (rule fetchApi_injected)
qed

text \<open>
  Claim C2, as stated, fails for the reorder mutation: the drag handler writes the
  reordered list into the cache, nothing is remembered, and a failure only invalidates the
  jobs queries. After the failed reorder of three jobs the cache holds the order b, c, a
  where it held a, b, c.
\<close>

theorem failed_mutation_restores_snapshot_counterexample:
  "handleDragEnd ''active'' [JObj (job_rec ''a'' 0), JObj (job_rec ''b'' 1), JObj (job_rec ''c'' 2)]
      ''a'' (Some ''c'') failing_api jobs_cache =
     Some (jobs_cache([''jobs'', ''active''] \<mapsto> page_bca),
           [error_toast ''Failed to reorder jobs. Please try again.''], 1) \<and>
   jobs_cache [''jobs'', ''active''] = Some page_abc \<and>
   (jobs_cache([''jobs'', ''active''] \<mapsto> page_bca)) [''jobs'', ''active''] = Some page_bca \<and>
   page_bca \<noteq> page_abc"
  by (simp add: handleDragEnd_def findIndex_def arrayMove_def reorderMutation_def useMutation_def
      reorder_onError_def invalidateQueries_def setQueryData_def spread_def jfld_def fld_def assign_def
      failing_api_def fetchApi_injected one_failed_call jobs_cache_def page_abc_def page_bca_def
      job_rec_def Let_def)

theorem failed_mutation_restores_snapshot_witness:
  "jobs_cache [''jobs'', ''active''] \<noteq> None \<and> jobs_cache [''candidate'', ''c1''] \<noteq> None \<and>
   jobs_cache [''candidates'', ''all''] \<noteq> None \<and> failing_update 0 = Inl ''HTTP 500'' \<and>
   fst (archive_onMutate ''active'' ''b'' jobs_cache) [''jobs'', ''active''] = Some page_ac \<and>
   archiveMutation ''active'' ''b'' failing_update jobs_cache =
     (jobs_cache, [error_toast ''Failed to update job status. Please try again.''], 1) \<and>
   stageMutation ''c1'' ''screen'' failing_update jobs_cache =
     (jobs_cache, [error_toast ''Failed to update candidate stage. Please try again.''], 1) \<and>
   updateStageMutation ''c1'' ''screen'' (JNum 5) failing_update jobs_cache =
     (jobs_cache, [error_toast ''Failed to update candidate stage. Please try again.''], 1)"
proof -
  have a: "jobs_cache [''jobs'', ''active''] \<noteq> None" by (simp add: jobs_cache_def)
  have b: "jobs_cache [''candidate'', ''c1''] \<noteq> None" by (simp add: jobs_cache_def)
  have c: "jobs_cache [''candidates'', ''all''] \<noteq> None" by (simp add: jobs_cache_def)
  have f: "failing_update 0 = Inl ''HTTP 500''" by (simp add: failing_update_def fetchApi_injected)
  have o: "fst (archive_onMutate ''active'' ''b'' jobs_cache) [''jobs'', ''active''] = Some page_ac"
    by (simp add: archive_onMutate_def archive_optimistic_def setQueryData_def cancelQueries_def
        getQueryData_def items_def jfld_def spread_def fld_def assign_def jobs_cache_def
        page_abc_def page_ac_def job_rec_def Let_def)
  note t = failed_mutation_restores_snapshot[where c = jobs_cache and activeTab = "''active''"
      and mutationFn = failing_update and e = "''HTTP 500''" and jobId = "''b''" and k = "''c1''"
      and newStage = "''screen''" and now = "JNum 5"]
  note t1 = mp[OF conjunct1[OF t] conjI[OF a f]]
  note t2 = mp[OF conjunct1[OF conjunct2[OF t]] conjI[OF b f]]
  note t3 = mp[OF conjunct1[OF conjunct2[OF conjunct2[OF t]]] conjI[OF c f]]
  show ?thesis
    by (intro conjI) (rule a b c f o t1 t2 t3)+
qed

end
